theory Spec2Isabelle
  imports Complex_Main
begin

section \<open>Numbers, vectors and exceptions\<close>

text \<open>
  The pipeline computes with Python floats and numpy \<open>float64\<close> arrays. They are modelled
  as real numbers: every formula below is the source's formula read over \<open>real\<close>, and the
  comparison against \<open>1e-9\<close> is the comparison against \<open>1 / 10 ^ 9\<close>. Rounding, \<open>NaN\<close> and
  \<open>Inf\<close> are outside this model.

  A 3-vector is a triple, a 3x3 matrix is the triple of its rows (numpy's row-major
  \<open>M[i, j]\<close>). A pixel is a pair \<open>(x, y)\<close>.
\<close>

type_synonym vec3 = "real \<times> real \<times> real"
type_synonym mat3 = "vec3 \<times> vec3 \<times> vec3"
type_synonym pixel = "real \<times> real"

text \<open>A Python exception, carrying the text that \<open>str(e)\<close> returns.\<close>

datatype exn =
    ValueError string
  | RuntimeError string
  | TypeError string
  | AttributeError string
  | KeyError string
  | FileNotFoundError string
  | IndexError string
  | ZeroDivisionError string
  | CvError string

fun str :: "exn \<Rightarrow> string" where
  "str (ValueError m) = m"
| "str (RuntimeError m) = m"
| "str (TypeError m) = m"
| "str (AttributeError m) = m"
| "str (KeyError m) = m"
| "str (FileNotFoundError m) = m"
| "str (IndexError m) = m"
| "str (ZeroDivisionError m) = m"
| "str (CvError m) = m"

text \<open>\<open>u.dot(v)\<close> on two arrays of shape \<open>(3,)\<close>.\<close>

fun dot :: "vec3 \<Rightarrow> vec3 \<Rightarrow> real" where
  "dot (a, b, c) (x, y, z) = a * x + b * y + c * z"

text \<open>\<open>s * v\<close> and \<open>u - v\<close> on arrays of shape \<open>(3,)\<close>.\<close>

fun scale :: "real \<Rightarrow> vec3 \<Rightarrow> vec3" where
  "scale s (x, y, z) = (s * x, s * y, s * z)"

fun vsub :: "vec3 \<Rightarrow> vec3 \<Rightarrow> vec3" where
  "vsub (a, b, c) (x, y, z) = (a - x, b - y, c - z)"

text \<open>\<open>R[:, j]\<close>: column \<open>j\<close> of a 3x3 array.\<close>

fun col0 :: "mat3 \<Rightarrow> vec3" where
  "col0 ((r00, r01, r02), (r10, r11, r12), (r20, r21, r22)) = (r00, r10, r20)"

fun col1 :: "mat3 \<Rightarrow> vec3" where
  "col1 ((r00, r01, r02), (r10, r11, r12), (r20, r21, r22)) = (r01, r11, r21)"

fun col2 :: "mat3 \<Rightarrow> vec3" where
  "col2 ((r00, r01, r02), (r10, r11, r12), (r20, r21, r22)) = (r02, r12, r22)"

text \<open>
  \<open>R[:, :2].T.dot(v)\<close>: the rows of the transposed 3x2 block are the first two columns
  of \<open>R\<close>, so the product has the two entries \<open>R[:, 0] . v\<close> and \<open>R[:, 1] . v\<close>.
\<close>

definition cols2_T_dot :: "mat3 \<Rightarrow> vec3 \<Rightarrow> real \<times> real" where
  "cols2_T_dot R v = (dot (col0 R) v, dot (col1 R) v)"

text \<open>\<open>np.linalg.norm(v)\<close> on an array of shape \<open>(3,)\<close>.\<close>

fun norm3 :: "vec3 \<Rightarrow> real" where
  "norm3 (x, y, z) = sqrt (x * x + y * y + z * z)"

section \<open>measurements.py: class Measurement\<close>

text \<open>
  The attributes of a \<open>Measurement\<close> object (the four calibration attributes carry the
  prefix \<open>m_\<close>). Python's \<open>None\<close> is \<open>None\<close>. The array attributes are
  taken at the shapes their producers in this repository give them: a 3x3 camera matrix
  and 3x1 rotation and translation vectors (\<open>load_calibrations\<close>, \<open>load_extrinsics\<close>);
  \<open>tvec.flatten()\<close> is then the 3-vector itself.
\<close>

record measurement =
  m_camera_matrix :: "mat3 option"
  m_dist_coeffs :: "real list option"
  m_rvec :: "vec3 option"
  m_tvec :: "vec3 option"
  click_points :: "pixel list"

text \<open>\<open>Measurement.__init__\<close> with its default arguments.\<close>

definition Measurement_init :: measurement where
  "Measurement_init =
     \<lparr>m_camera_matrix = None, m_dist_coeffs = None, m_rvec = None, m_tvec = None,
      click_points = []\<rparr>"

definition set_calibration ::
  "mat3 option \<Rightarrow> real list option \<Rightarrow> vec3 option \<Rightarrow> vec3 option \<Rightarrow> measurement \<Rightarrow> measurement"
where
  "set_calibration camera_matrix dist_coeffs rvec tvec self =
     self\<lparr>m_camera_matrix := camera_matrix, m_dist_coeffs := dist_coeffs,
          m_rvec := rvec, m_tvec := tvec\<rparr>"

text \<open>\<open>add_click_point\<close>: appends without any check and returns the new length.\<close>

definition add_click_point :: "pixel \<Rightarrow> measurement \<Rightarrow> nat \<times> measurement" where
  "add_click_point pixel_coords self =
     (let self' = self\<lparr>click_points := click_points self @ [pixel_coords]\<rparr>
      in (length (click_points self'), self'))"

definition get_click_count :: "measurement \<Rightarrow> nat" where
  "get_click_count self = length (click_points self)"

definition reset_points :: "measurement \<Rightarrow> measurement" where
  "reset_points self = self\<lparr>click_points := []\<rparr>"

text \<open>
  \<open>image_to_plane\<close>. The statements run in the source's order: the four intrinsic
  entries are read from \<open>self.camera_matrix\<close> (subscripting \<open>None\<close> raises \<open>TypeError\<close>), the
  ray and the denominator are computed, the guard raises \<open>RuntimeError\<close>, and only then
  come the division and \<open>self.tvec.flatten()\<close> (an \<open>AttributeError\<close> on \<open>None\<close>).
\<close>

definition image_to_plane ::
  "measurement \<Rightarrow> pixel \<Rightarrow> mat3 \<Rightarrow> vec3 \<Rightarrow> real \<Rightarrow> exn + vec3"
where
  "image_to_plane self pt R plane_normal_cam d =
     (case m_camera_matrix self of
        None \<Rightarrow> Inl (TypeError ''NoneType object is not subscriptable'')
      | Some ((k00, k01, k02), (k10, k11, k12), (k20, k21, k22)) \<Rightarrow>
          (let fx = k00; fy = k11; cx = k02; cy = k12;
               x = (fst pt - cx) / fx;
               y = (snd pt - cy) / fy;
               ray_cam = (x, y, 1);
               denom = dot plane_normal_cam ray_cam
           in if \<bar>denom\<bar> < 1 / 10 ^ 9
              then Inl (RuntimeError ''Ray nearly parallel to plane'')
              else (let s = - d / denom;
                        Xc = scale s ray_cam
                    in (case m_tvec self of
                          None \<Rightarrow> Inl (AttributeError ''NoneType object has no attribute flatten'')
                        | Some t \<Rightarrow>
                            (let obj_xy = cols2_T_dot R (vsub Xc t)
                             in Inr (fst obj_xy, snd obj_xy, 0))))))"

text \<open>
  The 6-tuple that \<open>compute_distance\<close> returns:
  \<open>(success, message, distance_m, distance_cm, point1_3d, point2_3d)\<close>.
\<close>

type_synonym distance_result =
  "bool \<times> string \<times> real option \<times> real option \<times> vec3 option \<times> vec3 option"

text \<open>
  \<open>compute_distance\<close>. \<open>cv2.Rodrigues\<close> belongs to OpenCV, not to this repository: it is the
  parameter \<open>Rodrigues\<close>, which either raises or returns the rotation matrix of a rotation
  vector. Every exception raised inside the \<open>try\<close> block ends in the \<open>except\<close> branch.
  The method reads \<open>self\<close> and assigns none of its attributes; the state it leaves is
  returned next to the tuple.
\<close>

definition compute_distance ::
  "(vec3 \<Rightarrow> exn + mat3) \<Rightarrow> measurement \<Rightarrow> distance_result \<times> measurement"
where
  "compute_distance Rodrigues self =
     (if length (click_points self) < 2
      then ((False, ''Need 2 points for distance measurement'', None, None, None, None), self)
      else if m_camera_matrix self = None \<or> m_dist_coeffs self = None
      then ((False, ''Camera intrinsics not loaded'', None, None, None, None), self)
      else if m_rvec self = None \<or> m_tvec self = None
      then ((False, ''Camera extrinsics not loaded'', None, None, None, None), self)
      else
        (case Rodrigues (the (m_rvec self)) of
           Inl e \<Rightarrow> ((False, ''Error computing distance: '' @ str e, None, None, None, None), self)
         | Inr R \<Rightarrow>
             (let plane_normal_cam = col2 R;
                  d = - dot plane_normal_cam (the (m_tvec self))
              in (case image_to_plane self (click_points self ! 0) R plane_normal_cam d of
                    Inl e \<Rightarrow>
                      ((False, ''Error computing distance: '' @ str e, None, None, None, None), self)
                  | Inr pt1_3d \<Rightarrow>
                      (case image_to_plane self (click_points self ! 1) R plane_normal_cam d of
                         Inl e \<Rightarrow>
                           ((False, ''Error computing distance: '' @ str e,
                             None, None, None, None), self)
                       | Inr pt2_3d \<Rightarrow>
                           (let distance_m = norm3 (vsub pt2_3d pt1_3d);
                                distance_cm = distance_m * 100
                            in ((True, ''Distance computed successfully'',
                                 Some distance_m, Some distance_cm,
                                 Some pt1_3d, Some pt2_3d), self)))))))"


section \<open>config.py\<close>

definition CALIB_FILE :: string where
  "CALIB_FILE = ''camera_calibration.json''"

definition EXTRINSICS_FILE :: string where
  "EXTRINSICS_FILE = ''camera_extrinsics.json''"

definition MIN_CHARUCO_CORNERS :: nat where
  "MIN_CHARUCO_CORNERS = 4"

section \<open>Arrays, JSON values and files\<close>

text \<open>
  A numpy array is the nesting of its entries, as \<open>tolist()\<close> shows it: a 3x1 column is
  \<open>Array [Array [Scalar a], Array [Scalar b], Array [Scalar c]]\<close>. An array proper has
  the same shape in every sibling (\<open>regular\<close>).
\<close>

datatype ndarray = Scalar real | Array "ndarray list"

fun shape :: "ndarray \<Rightarrow> nat list" where
  "shape (Scalar x) = []"
| "shape (Array []) = [0]"
| "shape (Array (a # as)) = Suc (length as) # shape a"

fun regular :: "ndarray \<Rightarrow> bool" where
  "regular (Scalar x) = True"
| "regular (Array as) =
     (list_all regular as \<and> list_all (\<lambda>a. shape a = shape (hd as)) as)"

text \<open>
  The JSON values that occur in the two calibration files: \<open>null\<close>, numbers, arrays and
  objects. An object keeps its members in order; a lookup takes the last member of a
  name, as \<open>json.load\<close> does.
\<close>

datatype json = JNull | JNum real | JArr "json list" | JObj "(string \<times> json) list"

text \<open>\<open>a.tolist()\<close>.\<close>

fun tolist :: "ndarray \<Rightarrow> json" where
  "tolist (Scalar x) = JNum x"
| "tolist (Array as) = JArr (map tolist as)"

text \<open>\<open>a.flatten()\<close>: the entries in row-major order.\<close>

fun flatten :: "ndarray \<Rightarrow> real list" where
  "flatten (Scalar x) = [x]"
| "flatten (Array as) = concat (map flatten as)"

text \<open>
  \<open>np.array(v, dtype=np.float64)\<close> on a value read by \<open>json.load\<close>. A number becomes a
  scalar, a list becomes the array of its converted members and must be homogeneous, an
  object raises. numpy reads \<open>null\<close> as \<open>NaN\<close>, which the reals do not have: the model
  answers with an error there, and no file written by this program holds \<open>null\<close> in an
  array field.
\<close>

fun np_array :: "json \<Rightarrow> exn + ndarray" where
  "np_array (JNum x) = Inr (Scalar x)"
| "np_array (JArr js) =
     (let rs = map np_array js
      in (case filter isl rs of
            e # _ \<Rightarrow> Inl (projl e)
          | [] \<Rightarrow>
              (let as = map projr rs
               in if list_all (\<lambda>a. shape a = shape (hd as)) as
                  then Inr (Array as)
                  else Inl (ValueError ''inhomogeneous shape''))))"
| "np_array (JObj kvs) = Inl (TypeError ''float() argument must be a real number, not dict'')"
| "np_array JNull = Inl (ValueError ''NaN'')"

text \<open>\<open>a.reshape(3, 1)\<close>: defined when the array has exactly three entries.\<close>

definition reshape_3_1 :: "ndarray \<Rightarrow> exn + ndarray" where
  "reshape_3_1 a =
     (let xs = flatten a
      in if length xs = 3
         then Inr (Array (map (\<lambda>x. Array [Scalar x]) xs))
         else Inl (ValueError ''cannot reshape array into shape (3,1)''))"

text \<open>\<open>data[key]\<close> on what \<open>json.load\<close> returned.\<close>

fun getitem :: "json \<Rightarrow> string \<Rightarrow> exn + json" where
  "getitem (JObj kvs) key =
     (case map_of (rev kvs) key of
        None \<Rightarrow> Inl (KeyError key)
      | Some v \<Rightarrow> Inr v)"
| "getitem j key = Inl (TypeError ''indices must be integers or slices, not str'')"

text \<open>
  The file system, as far as the program uses it: a path holds the JSON value last
  written there. \<open>json.dump\<close> followed by \<open>json.load\<close> returns the value written (Python
  prints a float so that reading it gives the same float back).
\<close>

type_synonym files = "string \<rightharpoonup> json"

definition json_dump_to :: "string \<Rightarrow> json \<Rightarrow> files \<Rightarrow> files" where
  "json_dump_to filepath v fs = fs(filepath \<mapsto> v)"

definition json_load_from :: "string \<Rightarrow> files \<Rightarrow> exn + json" where
  "json_load_from filepath fs =
     (case fs filepath of
        None \<Rightarrow> Inl (FileNotFoundError filepath)
      | Some v \<Rightarrow> Inr v)"

section \<open>intrinsic_calibration.py\<close>

type_synonym corners = "pixel list"
type_synonym ids = "int list"
type_synonym board = "vec3 list"

subsection \<open>class CalibrationWorker\<close>

record calibration_worker =
  w_corners :: "corners option list"
  w_ids :: "ids option list"
  w_board :: board
  w_image_size :: "(nat \<times> nat) option"

text \<open>The record built in \<open>run\<close>; \<open>image_size\<close> is a pair of integers or \<open>None\<close>.\<close>

definition calib_data ::
  "ndarray \<Rightarrow> ndarray \<Rightarrow> real \<Rightarrow> (nat \<times> nat) option \<Rightarrow> json"
where
  "calib_data cm dc ret sz =
     JObj [(''camera_matrix'', tolist cm),
           (''dist_coeffs'', tolist dc),
           (''rms'', JNum ret),
           (''image_size'',
              (case sz of None \<Rightarrow> JNull | Some (w, h) \<Rightarrow> JArr [JNum (real w), JNum (real h)]))]"

text \<open>
  \<open>CalibrationWorker.run\<close>. \<open>cv2.aruco.calibrateCameraCharuco\<close> is OpenCV's: it is the
  parameter \<open>calibrate\<close>, which raises or returns \<open>(ret, camera_matrix, dist_coeffs, rvecs,
  tvecs)\<close>. \<open>fmt\<close> stands for the format \<open>{ret:.4f}\<close>. The result is the list of \<open>progress\<close>
  signals and the arguments of the one \<open>finished\<close> signal. \<open>not ret\<close> on a float is
  \<open>ret == 0\<close>.
\<close>

definition worker_run ::
  "(corners option list \<Rightarrow> ids option list \<Rightarrow> board \<Rightarrow> (nat \<times> nat) option
      \<Rightarrow> exn + (real \<times> ndarray \<times> ndarray \<times> ndarray list \<times> ndarray list))
   \<Rightarrow> (real \<Rightarrow> string) \<Rightarrow> calibration_worker
   \<Rightarrow> string list \<times> (bool \<times> string \<times> json option)"
where
  "worker_run calibrate fmt self =
     (case calibrate (w_corners self) (w_ids self) (w_board self) (w_image_size self) of
        Inl e \<Rightarrow>
          ([''Running calibration algorithm...''],
           (False, ''Calibration failed: '' @ str e, None))
      | Inr (ret, camera_matrix, dist_coeffs, rvecs, tvecs) \<Rightarrow>
          if ret = 0 \<or> ret > 2
          then ([''Running calibration algorithm...''],
                (False, ''Calibration RMS error too high. Collect better frames.'', None))
          else ([''Running calibration algorithm...'',
                 ''Calibration successful! RMS = '' @ fmt ret],
                (True, ''Calibration completed with RMS error: '' @ fmt ret,
                 Some (calib_data camera_matrix dist_coeffs ret (w_image_size self)))))"

subsection \<open>class IntrinsicCalibration\<close>

record intrinsic_calibration =
  all_charuco_corners :: "corners option list"
  all_charuco_ids :: "ids option list"
  image_size :: "(nat \<times> nat) option"

definition IntrinsicCalibration_init :: intrinsic_calibration where
  "IntrinsicCalibration_init =
     \<lparr>all_charuco_corners = [], all_charuco_ids = [], image_size = None\<rparr>"

text \<open>\<open>add_frame\<close>: two appends, the first image size is kept, the new length is returned.\<close>

definition add_frame ::
  "corners option \<Rightarrow> ids option \<Rightarrow> (nat \<times> nat) option \<Rightarrow> intrinsic_calibration
   \<Rightarrow> nat \<times> intrinsic_calibration"
where
  "add_frame charuco_corners charuco_ids sz self =
     (let self1 = self\<lparr>all_charuco_corners := all_charuco_corners self @ [charuco_corners],
                       all_charuco_ids := all_charuco_ids self @ [charuco_ids]\<rparr>;
          self2 = (if image_size self1 = None then self1\<lparr>image_size := sz\<rparr> else self1)
      in (length (all_charuco_corners self2), self2))"

definition get_frame_count :: "intrinsic_calibration \<Rightarrow> nat" where
  "get_frame_count self = length (all_charuco_corners self)"

definition clear_frames :: "intrinsic_calibration \<Rightarrow> intrinsic_calibration" where
  "clear_frames self = self\<lparr>all_charuco_corners := [], all_charuco_ids := [], image_size := None\<rparr>"

definition run_calibration :: "board \<Rightarrow> intrinsic_calibration \<Rightarrow> exn + calibration_worker" where
  "run_calibration b self =
     (if get_frame_count self < 8
      then Inl (ValueError ''Need at least 8 frames for calibration'')
      else Inr \<lparr>w_corners = all_charuco_corners self, w_ids = all_charuco_ids self,
                w_board = b, w_image_size = image_size self\<rparr>)"

text \<open>\<open>save_calibration\<close>: the whole record goes to the file; the path is returned.\<close>

definition save_calibration :: "json \<Rightarrow> string option \<Rightarrow> files \<Rightarrow> string \<times> files" where
  "save_calibration data filepath fs =
     (let filepath = (case filepath of None \<Rightarrow> CALIB_FILE | Some p \<Rightarrow> p)
      in (filepath, json_dump_to filepath data fs))"

text \<open>\<open>load_calibration\<close>: reads two of the fields and returns them as a pair.\<close>

definition load_calibration :: "string option \<Rightarrow> files \<Rightarrow> exn + (ndarray \<times> ndarray)" where
  "load_calibration filepath fs =
     (let filepath = (case filepath of None \<Rightarrow> CALIB_FILE | Some p \<Rightarrow> p)
      in (case json_load_from filepath fs of
            Inl e \<Rightarrow> Inl e
          | Inr data \<Rightarrow>
              (case getitem data ''camera_matrix'' of
                 Inl e \<Rightarrow> Inl e
               | Inr cmj \<Rightarrow>
                   (case np_array cmj of
                      Inl e \<Rightarrow> Inl e
                    | Inr camera_matrix \<Rightarrow>
                        (case getitem data ''dist_coeffs'' of
                           Inl e \<Rightarrow> Inl e
                         | Inr dcj \<Rightarrow>
                             (case np_array dcj of
                                Inl e \<Rightarrow> Inl e
                              | Inr dist_coeffs \<Rightarrow> Inr (camera_matrix, dist_coeffs)))))))"

section \<open>extrinsic_calibration.py: class ExtrinsicCalibration\<close>

text \<open>The attributes of an \<open>ExtrinsicCalibration\<close> object (prefix \<open>x_\<close>).\<close>

record extrinsic_calibration =
  x_camera_matrix :: "ndarray option"
  x_dist_coeffs :: "ndarray option"
  x_rvec :: "ndarray option"
  x_tvec :: "ndarray option"

definition ExtrinsicCalibration_init :: extrinsic_calibration where
  "ExtrinsicCalibration_init =
     \<lparr>x_camera_matrix = None, x_dist_coeffs = None, x_rvec = None, x_tvec = None\<rparr>"

definition set_intrinsics ::
  "ndarray option \<Rightarrow> ndarray option \<Rightarrow> extrinsic_calibration \<Rightarrow> extrinsic_calibration"
where
  "set_intrinsics camera_matrix dist_coeffs self =
     self\<lparr>x_camera_matrix := camera_matrix, x_dist_coeffs := dist_coeffs\<rparr>"

text \<open>\<open>obj_points[i]\<close> on the board's corner table: a negative index counts from the end.\<close>

definition obj_point_at :: "board \<Rightarrow> int \<Rightarrow> exn + vec3" where
  "obj_point_at obj_points i =
     (if 0 \<le> i \<and> i < int (length obj_points) then Inr (obj_points ! nat i)
      else if - int (length obj_points) \<le> i \<and> i < 0
      then Inr (obj_points ! nat (int (length obj_points) + i))
      else Inl (IndexError ''index out of bounds''))"

text \<open>The comprehension \<open>[obj_points[id[0]] for id in charuco_ids]\<close>.\<close>

fun obj_pts_of :: "board \<Rightarrow> ids \<Rightarrow> exn + vec3 list" where
  "obj_pts_of obj_points [] = Inr []"
| "obj_pts_of obj_points (i # rest) =
     (case obj_point_at obj_points i of
        Inl e \<Rightarrow> Inl e
      | Inr p \<Rightarrow>
          (case obj_pts_of obj_points rest of
             Inl e \<Rightarrow> Inl e
           | Inr ps \<Rightarrow> Inr (p # ps)))"

text \<open>The 4-tuple that \<open>capture_pose\<close> returns: \<open>(success, message, rvec, tvec)\<close>.\<close>

type_synonym pose_result = "bool \<times> string \<times> ndarray option \<times> ndarray option"

text \<open>
  \<open>capture_pose\<close>. \<open>cv2.solvePnP\<close> is OpenCV's: it is the parameter \<open>solvePnP\<close>, which raises
  or returns \<open>(success, rvec, tvec)\<close>. The first check raises \<open>ValueError\<close> out of the
  method (\<open>Inl\<close>); the other failures are returned tuples. Iterating over
  \<open>charuco_ids = None\<close> raises inside the \<open>try\<close> block. The object after the call is
  returned next to the outcome.
\<close>

definition capture_pose ::
  "(vec3 list \<Rightarrow> pixel list \<Rightarrow> ndarray \<Rightarrow> ndarray \<Rightarrow> exn + (bool \<times> ndarray \<times> ndarray))
   \<Rightarrow> corners option \<Rightarrow> ids option \<Rightarrow> board \<Rightarrow> extrinsic_calibration
   \<Rightarrow> (exn + pose_result) \<times> extrinsic_calibration"
where
  "capture_pose solvePnP charuco_corners charuco_ids obj_points self =
     (if x_camera_matrix self = None \<or> x_dist_coeffs self = None
      then (Inl (ValueError ''Camera intrinsics not set. Load calibration first.''), self)
      else if charuco_corners = None \<or> length (the charuco_corners) < 4
      then (Inr (False, ''Need at least 4 ChArUco corners for pose estimation'', None, None),
            self)
      else
        (case (case charuco_ids of
                 None \<Rightarrow> Inl (TypeError ''NoneType object is not iterable'')
               | Some is \<Rightarrow> obj_pts_of obj_points is) of
           Inl e \<Rightarrow> (Inr (False, ''Pose estimation error: '' @ str e, None, None), self)
         | Inr obj_pts \<Rightarrow>
             (let img_pts = the charuco_corners
              in (case solvePnP obj_pts img_pts
                          (the (x_camera_matrix self)) (the (x_dist_coeffs self)) of
                    Inl e \<Rightarrow>
                      (Inr (False, ''Pose estimation error: '' @ str e, None, None), self)
                  | Inr (success, rvec, tvec) \<Rightarrow>
                      if success
                      then (Inr (True, ''Extrinsics captured successfully'',
                                 Some rvec, Some tvec),
                            self\<lparr>x_rvec := Some rvec, x_tvec := Some tvec\<rparr>)
                      else (Inr (False, ''solvePnP failed'', None, None), self)))))"

text \<open>
  \<open>save_extrinsics\<close>: missing arguments fall back to the stored pose; the file holds the
  two flattened vectors.
\<close>

definition save_extrinsics ::
  "ndarray option \<Rightarrow> ndarray option \<Rightarrow> string option \<Rightarrow> extrinsic_calibration \<Rightarrow> files
   \<Rightarrow> (exn + string) \<times> files"
where
  "save_extrinsics rvec tvec filepath self fs =
     (let rvec = (if rvec = None then x_rvec self else rvec);
          tvec = (if tvec = None then x_tvec self else tvec)
      in if rvec = None \<or> tvec = None
         then (Inl (ValueError ''Rotation or translation vector not available''), fs)
         else (let filepath = (case filepath of None \<Rightarrow> EXTRINSICS_FILE | Some p \<Rightarrow> p);
                   extrinsics_data =
                     JObj [(''rvec'', JArr (map JNum (flatten (the rvec)))),
                           (''tvec'', JArr (map JNum (flatten (the tvec))))]
               in (Inr filepath, json_dump_to filepath extrinsics_data fs)))"

text \<open>\<open>load_extrinsics\<close>: both vectors come back as 3x1 columns.\<close>

definition load_extrinsics :: "string option \<Rightarrow> files \<Rightarrow> exn + (ndarray \<times> ndarray)" where
  "load_extrinsics filepath fs =
     (let filepath = (case filepath of None \<Rightarrow> EXTRINSICS_FILE | Some p \<Rightarrow> p)
      in (case json_load_from filepath fs of
            Inl e \<Rightarrow> Inl e
          | Inr data \<Rightarrow>
              (case getitem data ''rvec'' of
                 Inl e \<Rightarrow> Inl e
               | Inr rj \<Rightarrow>
                   (case np_array rj of
                      Inl e \<Rightarrow> Inl e
                    | Inr ra \<Rightarrow>
                        (case reshape_3_1 ra of
                           Inl e \<Rightarrow> Inl e
                         | Inr rvec \<Rightarrow>
                             (case getitem data ''tvec'' of
                                Inl e \<Rightarrow> Inl e
                              | Inr tj \<Rightarrow>
                                  (case np_array tj of
                                     Inl e \<Rightarrow> Inl e
                                   | Inr ta \<Rightarrow>
                                       (case reshape_3_1 ta of
                                          Inl e \<Rightarrow> Inl e
                                        | Inr tvec \<Rightarrow> Inr (rvec, tvec)))))))))"

section \<open>Calibration_App.py: class ChArUcoCalibrationGUI\<close>

text \<open>
  The handlers of the window that call the three modules, with the attributes they read
  and write. Widgets, message boxes and drawing are left out; what a handler shows is its
  outcome. An image or pixmap is known by its size \<open>(width, height)\<close>.
\<close>

text \<open>
  The dictionary that the video thread emits with every frame (video_thread.py):
  \<open>corners_detected\<close>, \<open>charuco_corners\<close>, \<open>charuco_ids\<close> and \<open>frame\<close>.
\<close>

record detection =
  corners_detected :: nat
  d_charuco_corners :: "corners option"
  d_charuco_ids :: "ids option"
  d_frame :: "int \<times> int"

text \<open>
  \<open>current_detection\<close> starts as the empty dictionary, which is \<open>None\<close> here. The window's
  own \<open>image_size\<close> and \<open>click_points\<close> carry the prefix \<open>gui_\<close>.
\<close>

record gui =
  intrinsic :: intrinsic_calibration
  measurement :: measurement
  current_detection :: "detection option"
  gui_image_size :: "(nat \<times> nat) option"
  frozen_frame :: "(int \<times> int) option"
  gui_click_points :: "(int \<times> int) list"
  current_measure_frame :: "(int \<times> int) option"

definition ChArUcoCalibrationGUI_init :: gui where
  "ChArUcoCalibrationGUI_init =
     \<lparr>intrinsic = IntrinsicCalibration_init, measurement = Measurement_init,
      current_detection = None, gui_image_size = None, frozen_frame = None,
      gui_click_points = [], current_measure_frame = None\<rparr>"

definition update_calib_detection :: "detection \<Rightarrow> gui \<Rightarrow> gui" where
  "update_calib_detection info self =
     (let self1 = self\<lparr>current_detection := Some info\<rparr>
      in if gui_image_size self1 = None
         then self1\<lparr>gui_image_size := Some (nat (fst (d_frame info)), nat (snd (d_frame info)))\<rparr>
         else self1)"

datatype capture_outcome = Warning string | Critical string | Captured nat

text \<open>
  \<open>capture_calibration_frame\<close>: the gate on the number of detected corners, then
  \<open>add_frame\<close> with the window's stored \<open>image_size\<close>. Indexing the empty dictionary would
  raise \<open>KeyError\<close> into the handler's \<open>except\<close> branch.
\<close>

definition capture_calibration_frame :: "gui \<Rightarrow> capture_outcome \<times> gui" where
  "capture_calibration_frame self =
     (if (case current_detection self of None \<Rightarrow> 0 | Some info \<Rightarrow> corners_detected info)
         < MIN_CHARUCO_CORNERS
      then (Warning ''Insufficient Corners'', self)
      else (case current_detection self of
              None \<Rightarrow> (Critical ''Capture Error'', self)
            | Some info \<Rightarrow>
                (case add_frame (d_charuco_corners info) (d_charuco_ids info)
                        (gui_image_size self) (intrinsic self) of
                   (frame_count, intrinsic') \<Rightarrow>
                     (Captured frame_count, self\<lparr>intrinsic := intrinsic'\<rparr>))))"

text \<open>
  \<open>calibration_finished\<close>, the slot of the worker's \<open>finished\<close> signal: only a successful
  result is saved, at the default path.
\<close>

definition calibration_finished :: "bool \<times> string \<times> json option \<Rightarrow> files \<Rightarrow> files" where
  "calibration_finished sig fs =
     (case sig of
        (success, message, data) \<Rightarrow>
          if success
          then snd (save_calibration (case data of None \<Rightarrow> JNull | Some j \<Rightarrow> j) None fs)
          else fs)"

text \<open>\<open>undistort_frame\<close> (measurements.py); \<open>cv2.undistort\<close> keeps the image size.\<close>

definition undistort_frame :: "int \<times> int \<Rightarrow> measurement \<Rightarrow> exn + int \<times> int" where
  "undistort_frame frame self =
     (if m_camera_matrix self = None \<or> m_dist_coeffs self = None
      then Inl (ValueError ''Camera calibration not set'')
      else Inr frame)"

definition stop_measurement :: "gui \<Rightarrow> gui" where
  "stop_measurement self =
     self\<lparr>frozen_frame := None, gui_click_points := [], current_measure_frame := None,
          measurement := reset_points (measurement self)\<rparr>"

text \<open>
  \<open>start_measurement\<close>. \<open>loaded\<close> is what \<open>load_saved_calibration\<close> found (\<open>None\<close> when it
  returned \<open>False\<close>), \<open>running\<close> whether a video thread is running, \<open>thread_ok\<close> whether
  creating and starting the new thread went through; if not, the handler's \<open>except\<close>
  branch ends it before the three assignments.
\<close>

definition start_measurement ::
  "(mat3 \<times> real list \<times> vec3 \<times> vec3) option \<Rightarrow> bool \<Rightarrow> bool \<Rightarrow> gui \<Rightarrow> gui"
where
  "start_measurement loaded running thread_ok self =
     (case loaded of
        None \<Rightarrow> self
      | Some (camera_matrix, dist_coeffs, rvec, tvec) \<Rightarrow>
          (let self1 = (if running then stop_measurement self else self);
               self2 = self1\<lparr>measurement :=
                          set_calibration (Some camera_matrix) (Some dist_coeffs)
                            (Some rvec) (Some tvec) (measurement self1)\<rparr>
           in if thread_ok
              then self2\<lparr>frozen_frame := None, gui_click_points := [],
                         current_measure_frame := None\<rparr>
              else self2))"

definition store_measurement_frame :: "(int \<times> int) option \<Rightarrow> gui \<Rightarrow> gui" where
  "store_measurement_frame frame self =
     (case frame of None \<Rightarrow> self | Some f \<Rightarrow> self\<lparr>current_measure_frame := Some f\<rparr>)"

text \<open>
  \<open>freeze_frame\<close>. \<open>running\<close> as above; \<open>label_pixmap\<close> is what the video label shows. An
  exception of \<open>undistort_frame\<close> leaves the handler before any of the assignments
  modelled here.
\<close>

definition freeze_frame :: "bool \<Rightarrow> (int \<times> int) option \<Rightarrow> gui \<Rightarrow> gui" where
  "freeze_frame running label_pixmap self =
     (if running
      then (case (case current_measure_frame self of
                    Some frame \<Rightarrow>
                      (case undistort_frame frame (measurement self) of
                         Inl e \<Rightarrow> Inl e
                       | Inr undistorted \<Rightarrow> Inr (Some undistorted))
                  | None \<Rightarrow> Inr label_pixmap) of
              Inl e \<Rightarrow> self
            | Inr pixmap \<Rightarrow>
                self\<lparr>frozen_frame := pixmap, gui_click_points := [],
                     measurement := reset_points (measurement self)\<rparr>)
      else self)"

text \<open>\<open>int(x)\<close> on a float: truncation towards zero.\<close>

definition py_int :: "real \<Rightarrow> int" where
  "py_int x = (if 0 \<le> x then \<lfloor>x\<rfloor> else \<lceil>x\<rceil>)"

text \<open>
  The coordinate conversion at the head of \<open>measurement_click\<close>. \<open>/\<close> on Python integers
  and floats raises \<open>ZeroDivisionError\<close> on a zero divisor.
\<close>

definition click_to_image :: "int \<times> int \<Rightarrow> int \<times> int \<Rightarrow> int \<times> int \<Rightarrow> exn + int \<times> int" where
  "click_to_image label_size pixmap_size pos =
     (if fst label_size = 0 \<or> snd label_size = 0
      then Inl (ZeroDivisionError ''division by zero'')
      else (let scale_w = real_of_int (fst pixmap_size) / real_of_int (fst label_size);
                scale_h = real_of_int (snd pixmap_size) / real_of_int (snd label_size);
                scale = max scale_w scale_h
            in if scale = 0
               then Inl (ZeroDivisionError ''float division by zero'')
               else (let offset_x =
                           (real_of_int (fst label_size) - real_of_int (fst pixmap_size) / scale) / 2;
                         offset_y =
                           (real_of_int (snd label_size) - real_of_int (snd pixmap_size) / scale) / 2;
                         img_x = py_int ((real_of_int (fst pos) - offset_x) * scale);
                         img_y = py_int ((real_of_int (snd pos) - offset_y) * scale)
                     in Inr (img_x, img_y))))"

text \<open>
  \<open>measurement_click\<close>: the two early returns, the conversion (an exception there leaves
  the handler), then the point is appended to the window's list and to the
  \<open>Measurement\<close> object. Drawing and the call of \<open>compute_distance\<close> at two points change
  none of the attributes.
\<close>

definition measurement_click :: "int \<times> int \<Rightarrow> int \<times> int \<Rightarrow> gui \<Rightarrow> gui" where
  "measurement_click label_size pos self =
     (case frozen_frame self of
        None \<Rightarrow> self
      | Some pixmap_size \<Rightarrow>
          if length (gui_click_points self) \<ge> 2 then self
          else (case click_to_image label_size pixmap_size pos of
                  Inl e \<Rightarrow> self
                | Inr (img_x, img_y) \<Rightarrow>
                    self\<lparr>gui_click_points := gui_click_points self @ [(img_x, img_y)],
                         measurement :=
                           snd (add_click_point (real_of_int img_x, real_of_int img_y)
                                  (measurement self))\<rparr>))"

definition reset_measurement :: "gui \<Rightarrow> gui" where
  "reset_measurement self =
     self\<lparr>gui_click_points := [], measurement := reset_points (measurement self)\<rparr>"

text \<open>The user's and the video thread's actions on the measurement tab, and a run of them.\<close>

datatype gui_event =
    StartMeasurement "(mat3 \<times> real list \<times> vec3 \<times> vec3) option" bool bool
  | StoreMeasurementFrame "(int \<times> int) option"
  | FreezeFrame bool "(int \<times> int) option"
  | MeasurementClick "int \<times> int" "int \<times> int"
  | ResetMeasurement
  | StopMeasurement

fun handle :: "gui_event \<Rightarrow> gui \<Rightarrow> gui" where
  "handle (StartMeasurement loaded running thread_ok) self =
     start_measurement loaded running thread_ok self"
| "handle (StoreMeasurementFrame frame) self = store_measurement_frame frame self"
| "handle (FreezeFrame running label_pixmap) self = freeze_frame running label_pixmap self"
| "handle (MeasurementClick label_size pos) self = measurement_click label_size pos self"
| "handle ResetMeasurement self = reset_measurement self"
| "handle StopMeasurement self = stop_measurement self"

fun session :: "gui_event list \<Rightarrow> gui \<Rightarrow> gui" where
  "session [] self = self"
| "session (ev # evs) self = session evs (handle ev self)"

section \<open>The ray-plane intersection as the specification words it\<close>

text \<open>
  Step 1: the normalized ray \<open>r = ((px - cx)/fx, (py - cy)/fy, 1)\<close> with \<open>fx = K[0][0]\<close>,
  \<open>fy = K[1][1]\<close>, \<open>cx = K[0][2]\<close>, \<open>cy = K[1][2]\<close>.
\<close>

fun spec_ray :: "mat3 \<Rightarrow> pixel \<Rightarrow> vec3" where
  "spec_ray ((fx, k01, cx), (k10, fy, cy), k2) (px, py) = ((px - cx) / fx, (py - cy) / fy, 1)"

text \<open>Step 2: the normal is the third column of \<open>R\<close>, the offset is \<open>d = -(normal . t)\<close>.\<close>

fun spec_normal :: "mat3 \<Rightarrow> vec3" where
  "spec_normal ((r00, r01, r02), (r10, r11, r12), (r20, r21, r22)) = (r02, r12, r22)"

definition spec_offset :: "mat3 \<Rightarrow> vec3 \<Rightarrow> real" where
  "spec_offset R t = - (dot (spec_normal R) t)"

text \<open>The transpose of \<open>R\<close> and a matrix-vector product, for step 4.\<close>

fun transpose3 :: "mat3 \<Rightarrow> mat3" where
  "transpose3 ((r00, r01, r02), (r10, r11, r12), (r20, r21, r22)) =
     ((r00, r10, r20), (r01, r11, r21), (r02, r12, r22))"

fun mat_vec :: "mat3 \<Rightarrow> vec3 \<Rightarrow> vec3" where
  "mat_vec (row0, row1, row2) v = (dot row0 v, dot row1 v, dot row2 v)"

text \<open>
  Steps 3 and 4 for one pixel: \<open>RayParallelToPlane\<close> (\<open>None\<close>) if \<open>|normal . r| < 1e-9\<close>,
  else \<open>s = -d / (normal . r)\<close>, \<open>Xc = s r\<close>, \<open>Xb = R\<^sup>T (Xc - t)\<close>, and the in-plane point
  \<open>(Xb.x, Xb.y, 0)\<close>.
\<close>

definition spec_plane_point :: "mat3 \<Rightarrow> mat3 \<Rightarrow> vec3 \<Rightarrow> pixel \<Rightarrow> vec3 option" where
  "spec_plane_point K R t p =
     (let r = spec_ray K p;
          normal = spec_normal R;
          d = spec_offset R t
      in if \<bar>dot normal r\<bar> < 1 / 10 ^ 9 then None
         else (let s = - d / dot normal r;
                   Xc = scale s r;
                   Xb = mat_vec (transpose3 R) (vsub Xc t)
               in (case Xb of (Xbx, Xby, Xbz) \<Rightarrow> Some (Xbx, Xby, 0))))"


section \<open>Concrete inputs\<close>

text \<open>
  The identity matrix (as camera matrix: unit focal lengths, principal point at the
  origin; as rotation: the board faces the camera), a quarter turn about the y axis
  (the board plane then contains the optical axis), and a calibrated \<open>Measurement\<close>
  object whose board plane lies one meter in front of the camera.
\<close>

definition I3 :: mat3 where
  "I3 = ((1, 0, 0), (0, 1, 0), (0, 0, 1))"

definition Ry :: mat3 where
  "Ry = ((0, 0, 1), (0, 1, 0), (-1, 0, 0))"

definition demo_measurement :: "pixel list \<Rightarrow> measurement" where
  "demo_measurement pts =
     \<lparr>m_camera_matrix = Some I3, m_dist_coeffs = Some [], m_rvec = Some (0, 0, 0),
      m_tvec = Some (0, 0, 1), click_points = pts\<rparr>"

text \<open>
  A detection with four corners and one with three, a window that has received one of
  them from a 1280x960 camera, and a worker ready to run.
\<close>

definition detection4 :: detection where
  "detection4 =
     \<lparr>corners_detected = 4,
      d_charuco_corners = Some [(10, 10), (20, 10), (10, 20), (20, 20)],
      d_charuco_ids = Some [0, 1, 2, 3], d_frame = (640, 480)\<rparr>"

definition detection3 :: detection where
  "detection3 =
     \<lparr>corners_detected = 3,
      d_charuco_corners = Some [(10, 10), (20, 10), (10, 20)],
      d_charuco_ids = Some [0, 1, 2], d_frame = (640, 480)\<rparr>"

definition calib_gui :: "detection \<Rightarrow> gui" where
  "calib_gui info =
     ChArUcoCalibrationGUI_init\<lparr>current_detection := Some info,
                                gui_image_size := Some (1280, 960)\<rparr>"

definition cm0 :: ndarray where
  "cm0 = Array [Array [Scalar 800, Scalar 0, Scalar 320],
                Array [Scalar 0, Scalar 800, Scalar 240],
                Array [Scalar 0, Scalar 0, Scalar 1]]"

definition dc0 :: ndarray where
  "dc0 = Array [Array [Scalar 0, Scalar 0, Scalar 0, Scalar 0, Scalar 0]]"

definition worker0 :: calibration_worker where
  "worker0 = \<lparr>w_corners = [], w_ids = [], w_board = [], w_image_size = Some (640, 480)\<rparr>"

text \<open>
  A 3x1 column, a calibrated \<open>ExtrinsicCalibration\<close> object that already holds a pose, a
  board table with four corners and four detected corners.
\<close>

definition column :: "real \<Rightarrow> real \<Rightarrow> real \<Rightarrow> ndarray" where
  "column a b c = Array [Array [Scalar a], Array [Scalar b], Array [Scalar c]]"

definition extrinsic0 :: extrinsic_calibration where
  "extrinsic0 =
     \<lparr>x_camera_matrix = Some cm0, x_dist_coeffs = Some dc0,
      x_rvec = Some (column 0 0 0), x_tvec = Some (column 0 0 1)\<rparr>"

definition board0 :: board where
  "board0 = [(0, 0, 0), (1 / 100, 0, 0), (0, 1 / 100, 0), (1 / 100, 1 / 100, 0)]"

definition corners4 :: corners where
  "corners4 = [(10, 10), (20, 10), (10, 20), (20, 20)]"

text \<open>A pose solver that returns without success.\<close>

definition no_success_solver ::
  "vec3 list \<Rightarrow> pixel list \<Rightarrow> ndarray \<Rightarrow> ndarray \<Rightarrow> exn + (bool \<times> ndarray \<times> ndarray)"
where
  "no_success_solver obj_pts img_pts camera_matrix dist_coeffs =
     Inr (False, column 0 0 0, column 0 0 0)"

text \<open>
  A measurement session: calibration loaded, one frame stored and frozen, three clicks.
\<close>

definition loaded0 :: "(mat3 \<times> real list \<times> vec3 \<times> vec3) option" where
  "loaded0 = Some (((1, 0, 0), (0, 1, 0), (0, 0, 1)), [], (0, 0, 0), (0, 0, 1))"

definition three_clicks :: "gui_event list" where
  "three_clicks =
     [StartMeasurement loaded0 False True, StoreMeasurementFrame (Some (640, 480)),
      FreezeFrame True None,
      MeasurementClick (640, 480) (10, 20), MeasurementClick (640, 480) (30, 40),
      MeasurementClick (640, 480) (50, 60)]"

definition frozen_gui :: gui where
  "frozen_gui =
     session [StartMeasurement loaded0 False True, StoreMeasurementFrame (Some (640, 480)),
              FreezeFrame True None] ChArUcoCalibrationGUI_init"

section \<open>The invariant of a measurement session\<close>

text \<open>
  Both point lists hold at most two points, and while a frame is frozen they have the
  same length.
\<close>

definition session_inv :: "gui \<Rightarrow> bool" where
  "session_inv g =
     (length (gui_click_points g) \<le> 2 \<and> length (click_points (measurement g)) \<le> 2
      \<and> (frozen_frame g = None
           \<or> length (click_points (measurement g)) = length (gui_click_points g)))"

section \<open>Properties of the measurement engine\<close>

subsection \<open>Auxiliary facts\<close>

lemma norm3_vsub_commute: "norm3 (vsub a b) = norm3 (vsub b a)"
proof -
  obtain a1 a2 a3 where a: "a = (a1, a2, a3)" by (cases a) auto
  obtain b1 b2 b3 where b: "b = (b1, b2, b3)" by (cases b) auto
  have "(a1 - b1) * (a1 - b1) = (b1 - a1) * (b1 - a1)"
       "(a2 - b2) * (a2 - b2) = (b2 - a2) * (b2 - a2)"
       "(a3 - b3) * (a3 - b3) = (b3 - a3) * (b3 - a3)"
    by (simp_all add: algebra_simps)
  then show ?thesis by (simp add: a b)
qed

lemma spec_normal_col2: "spec_normal R = col2 R"
  by (cases R rule: col2.cases) simp

lemma spec_plane_point_None:
  "spec_plane_point K R t p = None \<longleftrightarrow> \<bar>dot (col2 R) (spec_ray K p)\<bar> < 1 / 10 ^ 9"
  by (simp add: spec_plane_point_def Let_def spec_normal_col2 split: prod.splits)

text \<open>
  With the arguments that \<open>compute_distance\<close> passes, \<open>image_to_plane\<close> is the
  specification's projection of one pixel.
\<close>

lemma image_to_plane_spec:
  assumes "m_camera_matrix s = Some K" and "m_tvec s = Some t"
  shows "image_to_plane s p R (col2 R) (- dot (col2 R) t) =
           (case spec_plane_point K R t p of
              None \<Rightarrow> Inl (RuntimeError ''Ray nearly parallel to plane'')
            | Some Xb \<Rightarrow> Inr Xb)"
proof -
  obtain k00 k01 k02 k10 k11 k12 k20 k21 k22
    where K: "K = ((k00, k01, k02), (k10, k11, k12), (k20, k21, k22))"
    by (metis prod_cases3)
  obtain r00 r01 r02 r10 r11 r12 r20 r21 r22
    where R: "R = ((r00, r01, r02), (r10, r11, r12), (r20, r21, r22))"
    by (metis prod_cases3)
  obtain px py where p: "p = (px, py)" by (cases p) auto
  obtain t0 t1 t2 where t: "t = (t0, t1, t2)" by (metis prod_cases3)
  show ?thesis
    using assms
    by (simp add: image_to_plane_def spec_plane_point_def spec_offset_def cols2_T_dot_def
        Let_def K R p t)
qed

lemma image_to_plane_guard:
  assumes "m_camera_matrix s = Some K"
  shows "\<bar>dot n (spec_ray K p)\<bar> < 1 / 10 ^ 9 \<Longrightarrow>
           image_to_plane s p R n d = Inl (RuntimeError ''Ray nearly parallel to plane'')"
    and "image_to_plane s p R n d = Inr Xb \<Longrightarrow> 1 / 10 ^ 9 \<le> \<bar>dot n (spec_ray K p)\<bar>"
proof -
  obtain k00 k01 k02 k10 k11 k12 k20 k21 k22
    where K: "K = ((k00, k01, k02), (k10, k11, k12), (k20, k21, k22))"
    by (metis prod_cases3)
  obtain px py where p: "p = (px, py)" by (cases p) auto
  show "\<bar>dot n (spec_ray K p)\<bar> < 1 / 10 ^ 9 \<Longrightarrow>
           image_to_plane s p R n d = Inl (RuntimeError ''Ray nearly parallel to plane'')"
    using assms by (simp add: image_to_plane_def Let_def K p)
  show "image_to_plane s p R n d = Inr Xb \<Longrightarrow> 1 / 10 ^ 9 \<le> \<bar>dot n (spec_ray K p)\<bar>"
    using assms by (simp add: image_to_plane_def Let_def K p split: if_splits)
qed

text \<open>The tuple that \<open>compute_distance\<close> returns once all its three checks pass.\<close>

lemma compute_distance_set:
  assumes "m_camera_matrix s = Some K" and "m_dist_coeffs s = Some dc"
    and "m_rvec s = Some rv" and "m_tvec s = Some t"
    and "Rodrigues rv = Inr R" and "click_points s = p1 # p2 # rest"
  shows "fst (compute_distance Rodrigues s) =
           (case spec_plane_point K R t p1 of
              None \<Rightarrow> (False, ''Error computing distance: Ray nearly parallel to plane'',
                        None, None, None, None)
            | Some Xb1 \<Rightarrow>
                (case spec_plane_point K R t p2 of
                   None \<Rightarrow> (False, ''Error computing distance: Ray nearly parallel to plane'',
                             None, None, None, None)
                 | Some Xb2 \<Rightarrow>
                     (True, ''Distance computed successfully'',
                      Some (norm3 (vsub Xb1 Xb2)), Some (norm3 (vsub Xb1 Xb2) * 100),
                      Some Xb1, Some Xb2)))"
proof -
  have i1: "image_to_plane s p1 R (col2 R) (- dot (col2 R) t) =
           (case spec_plane_point K R t p1 of
              None \<Rightarrow> Inl (RuntimeError ''Ray nearly parallel to plane'')
            | Some Xb \<Rightarrow> Inr Xb)"
    using assms(1,4) by (rule image_to_plane_spec)
  have i2: "image_to_plane s p2 R (col2 R) (- dot (col2 R) t) =
           (case spec_plane_point K R t p2 of
              None \<Rightarrow> Inl (RuntimeError ''Ray nearly parallel to plane'')
            | Some Xb \<Rightarrow> Inr Xb)"
    using assms(1,4) by (rule image_to_plane_spec)
  show ?thesis
    using assms
    by (simp add: compute_distance_def i1 i2 Let_def norm3_vsub_commute
        split: option.splits)
qed

subsection \<open>The ray-plane intersection\<close>



subsection \<open>A ray parallel to the plane\<close>

text \<open>
  Claim C2. With the camera matrix set, a pixel whose ray \<open>r\<close> has \<open>|normal . r| < 1e-9\<close>
  makes \<open>image_to_plane\<close> raise its \<open>RuntimeError\<close> (the specification's
  \<open>RayParallelToPlane\<close>); whenever \<open>image_to_plane\<close> returns a point, the denominator it
  divided by has absolute value at least \<open>1e-9\<close>, so it is not zero; and
  \<open>compute_distance\<close> in a calibrated state reports failure, with no number in its tuple,
  as soon as the ray of its first or second click point is parallel.
\<close>

theorem parallel_ray_fails:
  assumes "m_camera_matrix s = Some K"
  shows "(\<bar>dot n (spec_ray K p)\<bar> < 1 / 10 ^ 9 \<longrightarrow>
            image_to_plane s p R n d = Inl (RuntimeError ''Ray nearly parallel to plane''))
       \<and> (\<forall>Xb. image_to_plane s p R n d = Inr Xb \<longrightarrow>
            1 / 10 ^ 9 \<le> \<bar>dot n (spec_ray K p)\<bar> \<and> dot n (spec_ray K p) \<noteq> 0)
       \<and> (m_dist_coeffs s = Some dc \<and> m_rvec s = Some rv \<and> m_tvec s = Some t
            \<and> Rodrigues rv = Inr R' \<and> click_points s = p1 # p2 # rest
            \<and> (\<bar>dot (col2 R') (spec_ray K p1)\<bar> < 1 / 10 ^ 9
                 \<or> \<bar>dot (col2 R') (spec_ray K p2)\<bar> < 1 / 10 ^ 9) \<longrightarrow>
            fst (compute_distance Rodrigues s) =
              (False, ''Error computing distance: Ray nearly parallel to plane'',
               None, None, None, None))"
proof (intro conjI impI allI)
  assume "\<bar>dot n (spec_ray K p)\<bar> < 1 / 10 ^ 9"
  then show "image_to_plane s p R n d = Inl (RuntimeError ''Ray nearly parallel to plane'')"
    by (rule image_to_plane_guard(1) [OF assms])
next
  fix Xb assume "image_to_plane s p R n d = Inr Xb"
  then show "1 / 10 ^ 9 \<le> \<bar>dot n (spec_ray K p)\<bar>"
    by (rule image_to_plane_guard(2) [OF assms])
next
  fix Xb assume "image_to_plane s p R n d = Inr Xb"
  then have "1 / 10 ^ 9 \<le> \<bar>dot n (spec_ray K p)\<bar>"
    by (rule image_to_plane_guard(2) [OF assms])
  then show "dot n (spec_ray K p) \<noteq> 0" by auto
next
  assume h: "m_dist_coeffs s = Some dc \<and> m_rvec s = Some rv \<and> m_tvec s = Some t
            \<and> Rodrigues rv = Inr R' \<and> click_points s = p1 # p2 # rest
            \<and> (\<bar>dot (col2 R') (spec_ray K p1)\<bar> < 1 / 10 ^ 9
                 \<or> \<bar>dot (col2 R') (spec_ray K p2)\<bar> < 1 / 10 ^ 9)"
  then have "spec_plane_point K R' t p1 = None \<or> spec_plane_point K R' t p2 = None"
    by (simp add: spec_plane_point_None)
  moreover have "fst (compute_distance Rodrigues s) =
           (case spec_plane_point K R' t p1 of
              None \<Rightarrow> (False, ''Error computing distance: Ray nearly parallel to plane'',
                        None, None, None, None)
            | Some Xb1 \<Rightarrow>
                (case spec_plane_point K R' t p2 of
                   None \<Rightarrow> (False, ''Error computing distance: Ray nearly parallel to plane'',
                             None, None, None, None)
                 | Some Xb2 \<Rightarrow>
                     (True, ''Distance computed successfully'',
                      Some (norm3 (vsub Xb1 Xb2)), Some (norm3 (vsub Xb1 Xb2) * 100),
                      Some Xb1, Some Xb2)))"
    using compute_distance_set [of s K dc rv t Rodrigues R' p1 p2 rest] assms h by simp
  ultimately show "fst (compute_distance Rodrigues s) =
              (False, ''Error computing distance: Ray nearly parallel to plane'',
               None, None, None, None)"
    by (auto split: option.splits)
qed

theorem parallel_ray_fails_witness:
  "image_to_plane (demo_measurement [(0, 0), (1, 0)]) (0, 0) Ry (col2 Ry) 0 =
     Inl (RuntimeError ''Ray nearly parallel to plane'')
   \<and> fst (compute_distance (\<lambda>rv. Inr Ry) (demo_measurement [(0, 0), (1, 0)])) =
       (False, ''Error computing distance: Ray nearly parallel to plane'',
        None, None, None, None)
   \<and> image_to_plane (demo_measurement []) (0, 0) I3 (col2 I3) (-1) = Inr (0, 0, 0)
   \<and> dot (col2 I3) (spec_ray I3 (0, 0)) \<noteq> 0"
  using parallel_ray_fails [of "demo_measurement [(0, 0), (1, 0)]" I3 "col2 Ry" "(0, 0)" Ry 0
      "[]" "(0, 0, 0)" "(0, 0, 1)" "\<lambda>rv. Inr Ry" Ry "(0, 0)" "(1, 0)" "[]"]
    parallel_ray_fails [of "demo_measurement []" I3 "col2 I3" "(0, 0)" I3 "-1"]
  by (simp add: demo_measurement_def I3_def Ry_def image_to_plane_def cols2_T_dot_def Let_def)

subsection \<open>The preconditions of \<open>compute_distance\<close>\<close>

text \<open>
  Claim C3, as the code has it. \<open>compute_distance\<close> succeeds only when at least two click
  points are held (it measures the first two) and the camera matrix, the distortion
  coefficients, the rotation vector and the translation vector are all set. It checks
  in this order: with fewer than two points it fails with the message for insufficient
  points; else with the camera model incomplete it fails with the message for missing
  intrinsics; else with the pose incomplete it fails with the message for missing
  extrinsics.
\<close>

theorem compute_distance_preconditions:
  "(fst (fst (compute_distance Rodrigues s)) \<longrightarrow>
      2 \<le> length (click_points s) \<and> m_camera_matrix s \<noteq> None \<and> m_dist_coeffs s \<noteq> None
      \<and> m_rvec s \<noteq> None \<and> m_tvec s \<noteq> None)
   \<and> (length (click_points s) < 2 \<longrightarrow>
        fst (compute_distance Rodrigues s) =
          (False, ''Need 2 points for distance measurement'', None, None, None, None))
   \<and> (2 \<le> length (click_points s) \<and> (m_camera_matrix s = None \<or> m_dist_coeffs s = None) \<longrightarrow>
        fst (compute_distance Rodrigues s) =
          (False, ''Camera intrinsics not loaded'', None, None, None, None))
   \<and> (2 \<le> length (click_points s) \<and> m_camera_matrix s \<noteq> None \<and> m_dist_coeffs s \<noteq> None
        \<and> (m_rvec s = None \<or> m_tvec s = None) \<longrightarrow>
        fst (compute_distance Rodrigues s) =
          (False, ''Camera extrinsics not loaded'', None, None, None, None))"
  by (auto simp add: compute_distance_def Let_def split: sum.splits)

theorem compute_distance_preconditions_witness:
  "fst (fst (compute_distance (\<lambda>rv. Inr I3) (demo_measurement [(0, 0), (1, 0)])))
   \<and> 2 \<le> length (click_points (demo_measurement [(0, 0), (1, 0)]))
   \<and> fst (compute_distance (\<lambda>rv. Inr I3) (demo_measurement [(0, 0)])) =
       (False, ''Need 2 points for distance measurement'', None, None, None, None)
   \<and> fst (compute_distance (\<lambda>rv. Inr I3)
            ((demo_measurement [(0, 0), (1, 0)])\<lparr>m_camera_matrix := None\<rparr>)) =
       (False, ''Camera intrinsics not loaded'', None, None, None, None)
   \<and> fst (compute_distance (\<lambda>rv. Inr I3)
            ((demo_measurement [(0, 0), (1, 0)])\<lparr>m_tvec := None\<rparr>)) =
       (False, ''Camera extrinsics not loaded'', None, None, None, None)"
  using compute_distance_preconditions [of "\<lambda>rv. Inr I3" "demo_measurement [(0, 0), (1, 0)]"]
    compute_distance_preconditions [of "\<lambda>rv. Inr I3" "demo_measurement [(0, 0)]"]
    compute_distance_preconditions [of "\<lambda>rv. Inr I3"
      "(demo_measurement [(0, 0), (1, 0)])\<lparr>m_camera_matrix := None\<rparr>"]
    compute_distance_preconditions [of "\<lambda>rv. Inr I3"
      "(demo_measurement [(0, 0), (1, 0)])\<lparr>m_tvec := None\<rparr>"]
  by (simp add: compute_distance_def demo_measurement_def I3_def image_to_plane_def
      cols2_T_dot_def Let_def)

text \<open>
  Against claim C3 as stated ("only when exactly 2 click points are held"): a
  calibrated \<open>Measurement\<close> object with three click points.
\<close>

theorem compute_distance_three_points:
  "fst (fst (compute_distance (\<lambda>rv. Inr I3) (demo_measurement [(0, 0), (1, 0), (2, 0)])))
   \<and> length (click_points (demo_measurement [(0, 0), (1, 0), (2, 0)])) \<noteq> 2"
  by (simp add: compute_distance_def demo_measurement_def I3_def image_to_plane_def
      cols2_T_dot_def Let_def)

subsection \<open>Measuring twice\<close>

text \<open>
  Claim C9. \<open>compute_distance\<close> leaves the \<open>Measurement\<close> object as it found it, and a
  second call right after the first returns the same tuple: the same success flag,
  message, distances and 3D points. This holds in every state, in particular with
  exactly two click points and camera model and pose set.
\<close>

theorem compute_distance_idempotent:
  "snd (compute_distance Rodrigues s) = s
   \<and> compute_distance Rodrigues (snd (compute_distance Rodrigues s)) =
       compute_distance Rodrigues s"
proof -
  have "snd (compute_distance Rodrigues s) = s"
    by (simp add: compute_distance_def Let_def split: sum.splits)
  then show ?thesis by simp
qed

theorem compute_distance_idempotent_witness:
  "compute_distance (\<lambda>rv. Inr I3)
     (snd (compute_distance (\<lambda>rv. Inr I3) (demo_measurement [(0, 0), (1, 0)]))) =
   ((True, ''Distance computed successfully'', Some 1, Some 100,
     Some (0, 0, 0), Some (1, 0, 0)), demo_measurement [(0, 0), (1, 0)])"
  using compute_distance_idempotent [of "\<lambda>rv. Inr I3" "demo_measurement [(0, 0), (1, 0)]"]
  by (simp add: compute_distance_def demo_measurement_def I3_def image_to_plane_def
      cols2_T_dot_def Let_def)

subsection \<open>The cap on the click points\<close>

lemma session_inv_init: "session_inv ChArUcoCalibrationGUI_init"
  by (simp add: session_inv_def ChArUcoCalibrationGUI_init_def Measurement_init_def)

lemma session_inv_stop: "session_inv (stop_measurement g)"
  by (simp add: session_inv_def stop_measurement_def reset_points_def)

lemma session_inv_start:
  "session_inv g \<Longrightarrow> session_inv (start_measurement loaded running thread_ok g)"
  by (auto simp add: session_inv_def start_measurement_def stop_measurement_def
      reset_points_def set_calibration_def Let_def split: option.splits)

lemma session_inv_store: "session_inv g \<Longrightarrow> session_inv (store_measurement_frame f g)"
  by (simp add: session_inv_def store_measurement_frame_def split: option.splits)

lemma session_inv_freeze: "session_inv g \<Longrightarrow> session_inv (freeze_frame running lp g)"
  by (auto simp add: session_inv_def freeze_frame_def reset_points_def
      split: option.splits sum.splits)

lemma session_inv_click: "session_inv g \<Longrightarrow> session_inv (measurement_click ls pos g)"
  by (auto simp add: session_inv_def measurement_click_def add_click_point_def Let_def
      split: option.splits sum.splits)

lemma session_inv_reset: "session_inv (reset_measurement g)"
  by (simp add: session_inv_def reset_measurement_def reset_points_def)

lemma session_inv_handle: "session_inv g \<Longrightarrow> session_inv (handle ev g)"
  by (cases ev)
    (simp_all add: session_inv_start session_inv_store session_inv_freeze session_inv_click
      session_inv_reset session_inv_stop)

lemma session_inv_session: "session_inv g \<Longrightarrow> session_inv (session evs g)"
  by (induction evs arbitrary: g) (simp_all add: session_inv_handle)

text \<open>
  Claim C5, as the code has it. \<open>Measurement.add_click_point\<close> always appends the pixel
  and returns the new count. The cap lives in the window's \<open>measurement_click\<close>: it
  changes nothing when no frame is frozen or when the window already holds two points,
  and otherwise (the click converted to image coordinates) appends the point to the
  window's list and to the \<open>Measurement\<close> object. In every state that the measurement
  tab's handlers reach from the initial window, both lists hold 0, 1 or 2 points.
\<close>

theorem click_points_capped:
  "fst (add_click_point px m) = length (click_points m) + 1
   \<and> click_points (snd (add_click_point px m)) = click_points m @ [px]
   \<and> (frozen_frame g = None \<or> 2 \<le> length (gui_click_points g) \<longrightarrow>
        measurement_click label_size pos g = g)
   \<and> (frozen_frame g = Some pixmap_size \<and> length (gui_click_points g) < 2
        \<and> click_to_image label_size pixmap_size pos = Inr (img_x, img_y) \<longrightarrow>
        measurement_click label_size pos g =
          g\<lparr>gui_click_points := gui_click_points g @ [(img_x, img_y)],
            measurement :=
              snd (add_click_point (real_of_int img_x, real_of_int img_y) (measurement g))\<rparr>)
   \<and> length (gui_click_points (session evs ChArUcoCalibrationGUI_init)) \<le> 2
   \<and> length (click_points (measurement (session evs ChArUcoCalibrationGUI_init))) \<le> 2"
proof -
  have "session_inv (session evs ChArUcoCalibrationGUI_init)"
    by (rule session_inv_session [OF session_inv_init])
  then have "length (gui_click_points (session evs ChArUcoCalibrationGUI_init)) \<le> 2"
    and "length (click_points (measurement (session evs ChArUcoCalibrationGUI_init))) \<le> 2"
    by (simp_all add: session_inv_def)
  moreover have "fst (add_click_point px m) = length (click_points m) + 1"
    and "click_points (snd (add_click_point px m)) = click_points m @ [px]"
    by (simp_all add: add_click_point_def Let_def)
  moreover have "frozen_frame g = None \<or> 2 \<le> length (gui_click_points g) \<longrightarrow>
        measurement_click label_size pos g = g"
    by (auto simp add: measurement_click_def split: option.splits)
  moreover have "frozen_frame g = Some pixmap_size \<and> length (gui_click_points g) < 2
        \<and> click_to_image label_size pixmap_size pos = Inr (img_x, img_y) \<longrightarrow>
        measurement_click label_size pos g =
          g\<lparr>gui_click_points := gui_click_points g @ [(img_x, img_y)],
            measurement :=
              snd (add_click_point (real_of_int img_x, real_of_int img_y) (measurement g))\<rparr>"
    by (simp add: measurement_click_def)
  ultimately show ?thesis by blast
qed

theorem click_points_capped_witness:
  "measurement_click (640, 480) (10, 20) ChArUcoCalibrationGUI_init = ChArUcoCalibrationGUI_init
   \<and> fst (add_click_point (10, 20) Measurement_init) = 1
   \<and> measurement_click (640, 480) (10, 20) frozen_gui =
       frozen_gui\<lparr>gui_click_points := [(10, 20)],
                  measurement := snd (add_click_point (10, 20) (measurement frozen_gui))\<rparr>
   \<and> length (gui_click_points (session three_clicks ChArUcoCalibrationGUI_init)) \<le> 2
   \<and> length (click_points (measurement (session three_clicks ChArUcoCalibrationGUI_init))) \<le> 2
   \<and> gui_click_points (session three_clicks ChArUcoCalibrationGUI_init) = [(10, 20), (30, 40)]"
proof -
  note t0 = click_points_capped [of "(10, 20)" Measurement_init ChArUcoCalibrationGUI_init
      "(640, 480)" "(10, 20)" "(640, 480)" 10 20 three_clicks]
  note t1 = click_points_capped [of "(10, 20)" Measurement_init frozen_gui
      "(640, 480)" "(10, 20)" "(640, 480)" 10 20 three_clicks]
  have n: "frozen_frame ChArUcoCalibrationGUI_init = None
           \<or> 2 \<le> length (gui_click_points ChArUcoCalibrationGUI_init)"
    by (simp add: ChArUcoCalibrationGUI_init_def)
  have fg: "frozen_frame frozen_gui = Some (640, 480)" "gui_click_points frozen_gui = []"
    by (simp_all add: frozen_gui_def loaded0_def ChArUcoCalibrationGUI_init_def
        Measurement_init_def start_measurement_def set_calibration_def
        store_measurement_frame_def freeze_frame_def undistort_frame_def reset_points_def)
  have ci: "click_to_image (640, 480) (640, 480) (10, 20) = Inr (10, 20)"
    by (simp add: click_to_image_def Let_def py_int_def)
  have h: "frozen_frame frozen_gui = Some (640, 480) \<and> length (gui_click_points frozen_gui) < 2
           \<and> click_to_image (640, 480) (640, 480) (10, 20) = Inr (10, 20)"
    by (simp add: fg ci)
  have "measurement_click (640, 480) (10, 20) ChArUcoCalibrationGUI_init =
          ChArUcoCalibrationGUI_init"
    by (rule t0 [THEN conjunct2, THEN conjunct2, THEN conjunct1, THEN mp, OF n])
  moreover have "fst (add_click_point (10, 20) Measurement_init) = 1"
    using t0 [THEN conjunct1] by (simp add: Measurement_init_def)
  moreover have "measurement_click (640, 480) (10, 20) frozen_gui =
       frozen_gui\<lparr>gui_click_points := [(10, 20)],
                  measurement := snd (add_click_point (10, 20) (measurement frozen_gui))\<rparr>"
    using t1 [THEN conjunct2, THEN conjunct2, THEN conjunct2, THEN conjunct1, THEN mp, OF h]
    by (simp add: fg)
  moreover have "length (gui_click_points (session three_clicks ChArUcoCalibrationGUI_init)) \<le> 2"
    by (rule t0 [THEN conjunct2, THEN conjunct2, THEN conjunct2, THEN conjunct2,
          THEN conjunct1])
  moreover
  have "length (click_points (measurement (session three_clicks ChArUcoCalibrationGUI_init))) \<le> 2"
    by (rule t0 [THEN conjunct2, THEN conjunct2, THEN conjunct2, THEN conjunct2,
          THEN conjunct2])
  moreover
  have "gui_click_points (session three_clicks ChArUcoCalibrationGUI_init) = [(10, 20), (30, 40)]"
    by (simp add: three_clicks_def loaded0_def ChArUcoCalibrationGUI_init_def
      Measurement_init_def start_measurement_def set_calibration_def
      store_measurement_frame_def freeze_frame_def undistort_frame_def reset_points_def
      measurement_click_def click_to_image_def Let_def py_int_def add_click_point_def)
  ultimately show ?thesis by (intro conjI)
qed

text \<open>
  Against claim C5 as stated ("a rejected no-op once 2 points are already held"):
  \<open>add_click_point\<close> on a \<open>Measurement\<close> object that holds two points.
\<close>

theorem add_click_point_third:
  "fst (add_click_point (2, 0) (demo_measurement [(0, 0), (1, 0)])) = 3
   \<and> click_points (snd (add_click_point (2, 0) (demo_measurement [(0, 0), (1, 0)]))) =
       [(0, 0), (1, 0), (2, 0)]"
  by (simp add: add_click_point_def demo_measurement_def Let_def)

section \<open>Properties of the intrinsic calibration\<close>

subsection \<open>Capturing a frame\<close>

lemma add_frame_effect:
  "fst (add_frame c i sz s) = get_frame_count s + 1"
  "get_frame_count (snd (add_frame c i sz s)) = get_frame_count s + 1"
  "image_size (snd (add_frame c i sz s)) = (case image_size s of None \<Rightarrow> sz | Some z \<Rightarrow> Some z)"
  by (simp_all add: add_frame_def get_frame_count_def Let_def split: option.splits)

text \<open>
  Claim C4, as the code has it. The minimum is 4. The window's
  \<open>capture_calibration_frame\<close> refuses a detection with fewer corners than the minimum
  (the warning for insufficient corners, nothing stored); with at least the minimum it
  calls \<open>add_frame\<close>, the frame count grows by exactly 1, and the store keeps the image
  size it already has or, if it has none, takes the window's. \<open>add_frame\<close> itself
  checks neither the number of corners nor the image size: it always stores the frame
  and returns the count plus 1.
\<close>

theorem capture_frame_gate:
  "MIN_CHARUCO_CORNERS = 4
   \<and> ((case current_detection g of None \<Rightarrow> 0 | Some info \<Rightarrow> corners_detected info)
         < MIN_CHARUCO_CORNERS \<longrightarrow>
        capture_calibration_frame g = (Warning ''Insufficient Corners'', g))
   \<and> (current_detection g = Some info \<and> MIN_CHARUCO_CORNERS \<le> corners_detected info \<longrightarrow>
        fst (capture_calibration_frame g) = Captured (get_frame_count (intrinsic g) + 1)
        \<and> get_frame_count (intrinsic (snd (capture_calibration_frame g))) =
            get_frame_count (intrinsic g) + 1
        \<and> image_size (intrinsic (snd (capture_calibration_frame g))) =
            (case image_size (intrinsic g) of None \<Rightarrow> gui_image_size g | Some z \<Rightarrow> Some z))
   \<and> fst (add_frame charuco_corners charuco_ids sz s) = get_frame_count s + 1
   \<and> get_frame_count (snd (add_frame charuco_corners charuco_ids sz s)) = get_frame_count s + 1
   \<and> image_size (snd (add_frame charuco_corners charuco_ids sz s)) =
       (case image_size s of None \<Rightarrow> sz | Some z \<Rightarrow> Some z)"
proof -
  have "(case current_detection g of None \<Rightarrow> 0 | Some info \<Rightarrow> corners_detected info)
         < MIN_CHARUCO_CORNERS \<longrightarrow>
        capture_calibration_frame g = (Warning ''Insufficient Corners'', g)"
    by (simp add: capture_calibration_frame_def)
  moreover have "current_detection g = Some info \<and> MIN_CHARUCO_CORNERS \<le> corners_detected info \<longrightarrow>
        fst (capture_calibration_frame g) = Captured (get_frame_count (intrinsic g) + 1)
        \<and> get_frame_count (intrinsic (snd (capture_calibration_frame g))) =
            get_frame_count (intrinsic g) + 1
        \<and> image_size (intrinsic (snd (capture_calibration_frame g))) =
            (case image_size (intrinsic g) of None \<Rightarrow> gui_image_size g | Some z \<Rightarrow> Some z)"
    using add_frame_effect [of "d_charuco_corners info" "d_charuco_ids info" "gui_image_size g" "intrinsic g"]
    by (auto simp add: capture_calibration_frame_def split: prod.splits)
  ultimately show ?thesis
    by (simp add: add_frame_effect MIN_CHARUCO_CORNERS_def)
qed

theorem capture_frame_gate_witness:
  "capture_calibration_frame (calib_gui detection3) =
     (Warning ''Insufficient Corners'', calib_gui detection3)
   \<and> fst (capture_calibration_frame (calib_gui detection4)) = Captured 1
   \<and> image_size (intrinsic (snd (capture_calibration_frame (calib_gui detection4)))) =
       Some (1280, 960)"
proof -
  have lt: "(case current_detection (calib_gui detection3) of
               None \<Rightarrow> 0 | Some info \<Rightarrow> corners_detected info) < MIN_CHARUCO_CORNERS"
    by (simp add: calib_gui_def detection3_def MIN_CHARUCO_CORNERS_def)
  have ge: "current_detection (calib_gui detection4) = Some detection4
            \<and> MIN_CHARUCO_CORNERS \<le> corners_detected detection4"
    by (simp add: calib_gui_def detection4_def MIN_CHARUCO_CORNERS_def)
  have st: "get_frame_count (intrinsic (calib_gui detection4)) = 0"
    "image_size (intrinsic (calib_gui detection4)) = None"
    "gui_image_size (calib_gui detection4) = Some (1280, 960)"
    by (simp_all add: calib_gui_def ChArUcoCalibrationGUI_init_def
        IntrinsicCalibration_init_def get_frame_count_def)
  from lt capture_frame_gate [of "calib_gui detection3" detection3 None None None
      IntrinsicCalibration_init]
  have "capture_calibration_frame (calib_gui detection3) =
     (Warning ''Insufficient Corners'', calib_gui detection3)"
    by blast
  moreover from ge capture_frame_gate [of "calib_gui detection4" detection4 None None None
      IntrinsicCalibration_init]
  have "fst (capture_calibration_frame (calib_gui detection4)) =
          Captured (get_frame_count (intrinsic (calib_gui detection4)) + 1)
        \<and> image_size (intrinsic (snd (capture_calibration_frame (calib_gui detection4)))) =
            (case image_size (intrinsic (calib_gui detection4)) of
               None \<Rightarrow> gui_image_size (calib_gui detection4) | Some z \<Rightarrow> Some z)"
    by blast
  ultimately show ?thesis by (simp add: st)
qed

text \<open>
  Against claim C4 as stated ("fails with ImageSizeMismatch when the frame's resolution
  differs"): a second frame of another resolution, with no corners at all, is stored and
  counted, and the first image size stays.
\<close>

theorem add_frame_unchecked:
  "fst (add_frame (Some []) (Some []) (Some (640, 480))
          (snd (add_frame (d_charuco_corners detection4) (d_charuco_ids detection4)
                  (Some (1280, 960)) IntrinsicCalibration_init))) = 2
   \<and> image_size (snd (add_frame (Some []) (Some []) (Some (640, 480))
          (snd (add_frame (d_charuco_corners detection4) (d_charuco_ids detection4)
                  (Some (1280, 960)) IntrinsicCalibration_init)))) = Some (1280, 960)"
  by (simp add: add_frame_def IntrinsicCalibration_init_def Let_def)

subsection \<open>The acceptance threshold\<close>

text \<open>
  Claim C6, as the code has it. When the fit returns an RMS error \<open>ret\<close>, the worker
  reports failure (the message for a too high RMS error, no record) exactly when \<open>ret\<close>
  is zero or exceeds 2, and the window then writes no file; otherwise it reports
  success with the record of \<open>camera_matrix\<close>, \<open>dist_coeffs\<close>, \<open>rms\<close> and \<open>image_size\<close>,
  which the window saves at the default path.
\<close>

theorem worker_run_threshold:
  assumes "calibrate (w_corners w) (w_ids w) (w_board w) (w_image_size w) =
             Inr (ret, camera_matrix, dist_coeffs, rvecs, tvecs)"
  shows "(ret = 0 \<or> ret > 2 \<longrightarrow>
            snd (worker_run calibrate fmt w) =
              (False, ''Calibration RMS error too high. Collect better frames.'', None)
            \<and> calibration_finished (snd (worker_run calibrate fmt w)) fs = fs)
       \<and> (ret \<noteq> 0 \<and> ret \<le> 2 \<longrightarrow>
            snd (worker_run calibrate fmt w) =
              (True, ''Calibration completed with RMS error: '' @ fmt ret,
               Some (calib_data camera_matrix dist_coeffs ret (w_image_size w)))
            \<and> calibration_finished (snd (worker_run calibrate fmt w)) fs =
                fs(CALIB_FILE \<mapsto> calib_data camera_matrix dist_coeffs ret (w_image_size w))
            \<and> getitem (calib_data camera_matrix dist_coeffs ret (w_image_size w))
                ''camera_matrix'' = Inr (tolist camera_matrix)
            \<and> getitem (calib_data camera_matrix dist_coeffs ret (w_image_size w))
                ''dist_coeffs'' = Inr (tolist dist_coeffs)
            \<and> getitem (calib_data camera_matrix dist_coeffs ret (w_image_size w))
                ''rms'' = Inr (JNum ret)
            \<and> (\<forall>wd ht. w_image_size w = Some (wd, ht) \<longrightarrow>
                 getitem (calib_data camera_matrix dist_coeffs ret (w_image_size w))
                   ''image_size'' = Inr (JArr [JNum (real wd), JNum (real ht)])))"
  using assms
  by (auto simp add: worker_run_def calibration_finished_def save_calibration_def
      json_dump_to_def calib_data_def Let_def)

theorem worker_run_threshold_witness:
  "snd (worker_run (\<lambda>cs is b sz. Inr (3, cm0, dc0, [], [])) (\<lambda>r. ''3.0000'') worker0) =
     (False, ''Calibration RMS error too high. Collect better frames.'', None)
   \<and> calibration_finished
       (snd (worker_run (\<lambda>cs is b sz. Inr (3, cm0, dc0, [], [])) (\<lambda>r. ''3.0000'') worker0))
       Map.empty CALIB_FILE = None
   \<and> snd (worker_run (\<lambda>cs is b sz. Inr (1 / 2, cm0, dc0, [], [])) (\<lambda>r. ''0.5000'') worker0) =
       (True, ''Calibration completed with RMS error: 0.5000'',
        Some (calib_data cm0 dc0 (1 / 2) (Some (640, 480))))
   \<and> calibration_finished
       (snd (worker_run (\<lambda>cs is b sz. Inr (1 / 2, cm0, dc0, [], [])) (\<lambda>r. ''0.5000'') worker0))
       Map.empty CALIB_FILE = Some (calib_data cm0 dc0 (1 / 2) (Some (640, 480)))"
  using worker_run_threshold [of "\<lambda>cs is b sz. Inr (3, cm0, dc0, [], [])" worker0 3 cm0 dc0
      "[]" "[]" "\<lambda>r. ''3.0000''" Map.empty]
    worker_run_threshold [of "\<lambda>cs is b sz. Inr (1 / 2, cm0, dc0, [], [])" worker0 "1 / 2"
      cm0 dc0 "[]" "[]" "\<lambda>r. ''0.5000''" Map.empty]
  by (simp add: worker0_def worker_run_def calibration_finished_def save_calibration_def
      json_dump_to_def)

text \<open>
  Against claim C6 as stated ("failure exactly when the RMS exceeds 2.0"): an RMS error
  of exactly zero is rejected as well.
\<close>

theorem worker_run_zero_rms:
  "snd (worker_run (\<lambda>cs is b sz. Inr (0, cm0, dc0, [], [])) (\<lambda>r. ''0.0000'') worker0) =
     (False, ''Calibration RMS error too high. Collect better frames.'', None)
   \<and> \<not> (0 :: real) > 2"
  by (simp add: worker_run_def)

section \<open>Properties of the pose solver\<close>

lemma capture_pose_no_intrinsics:
  "x_camera_matrix s = None \<or> x_dist_coeffs s = None \<Longrightarrow>
     capture_pose solvePnP cs cids b s =
       (Inl (ValueError ''Camera intrinsics not set. Load calibration first.''), s)"
  by (simp add: capture_pose_def)

lemma capture_pose_few_corners:
  "x_camera_matrix s \<noteq> None \<Longrightarrow> x_dist_coeffs s \<noteq> None \<Longrightarrow>
   cs = None \<or> length (the cs) < 4 \<Longrightarrow>
     capture_pose solvePnP cs cids b s =
       (Inr (False, ''Need at least 4 ChArUco corners for pose estimation'', None, None), s)"
  by (simp add: capture_pose_def)

lemma capture_pose_solve:
  assumes "x_camera_matrix s = Some cm" and "x_dist_coeffs s = Some dc"
    and "4 \<le> length pts" and "obj_pts_of b idl = Inr obj_pts"
  shows "capture_pose solvePnP (Some pts) (Some idl) b s =
           (case solvePnP obj_pts pts cm dc of
              Inl e \<Rightarrow> (Inr (False, ''Pose estimation error: '' @ str e, None, None), s)
            | Inr (success, rvec, tvec) \<Rightarrow>
                if success
                then (Inr (True, ''Extrinsics captured successfully'', Some rvec, Some tvec),
                      s\<lparr>x_rvec := Some rvec, x_tvec := Some tvec\<rparr>)
                else (Inr (False, ''solvePnP failed'', None, None), s))"
  using assms by (simp add: capture_pose_def Let_def)

lemma capture_pose_outcomes:
  "(\<exists>r. capture_pose solvePnP cs cids b s = (r, s) \<and>
         (case r of Inl e \<Rightarrow> True | Inr (success, message, rv, tv) \<Rightarrow> \<not> success))
   \<or> (\<exists>rv tv. capture_pose solvePnP cs cids b s =
         (Inr (True, ''Extrinsics captured successfully'', Some rv, Some tv),
          s\<lparr>x_rvec := Some rv, x_tvec := Some tv\<rparr>))"
proof (cases "x_camera_matrix s = None \<or> x_dist_coeffs s = None")
  case True
  then show ?thesis by (simp add: capture_pose_no_intrinsics)
next
  case intr: False
  show ?thesis
  proof (cases "cs = None \<or> length (the cs) < 4")
    case True
    with intr show ?thesis by (simp add: capture_pose_few_corners)
  next
    case False
    then obtain pts where cs: "cs = Some pts" and len: "4 \<le> length pts" by auto
    from intr obtain cm dc where cm: "x_camera_matrix s = Some cm"
      and dc: "x_dist_coeffs s = Some dc" by auto
    show ?thesis
    proof (cases "case cids of None \<Rightarrow> Inl (TypeError ''NoneType object is not iterable'')
                  | Some idl \<Rightarrow> obj_pts_of b idl")
      case (Inl e)
      then show ?thesis
        using cm dc len by (simp add: capture_pose_def cs)
    next
      case (Inr obj_pts)
      then have eq: "capture_pose solvePnP cs cids b s =
           (case solvePnP obj_pts pts cm dc of
              Inl e \<Rightarrow> (Inr (False, ''Pose estimation error: '' @ str e, None, None), s)
            | Inr (success, rvec, tvec) \<Rightarrow>
                if success
                then (Inr (True, ''Extrinsics captured successfully'', Some rvec, Some tvec),
                      s\<lparr>x_rvec := Some rvec, x_tvec := Some tvec\<rparr>)
                else (Inr (False, ''solvePnP failed'', None, None), s))"
        using cm dc len by (simp add: capture_pose_def cs Let_def)
      show ?thesis
      proof (cases "solvePnP obj_pts pts cm dc")
        case (Inl e)
        then show ?thesis by (simp add: eq)
      next
        case (Inr res)
        obtain success rvec tvec where res: "res = (success, rvec, tvec)"
          by (cases res) auto
        show ?thesis by (cases success) (simp_all add: eq Inr res)
      qed
    qed
  qed
qed

text \<open>
  Claim C8, as the code has it. \<open>capture_pose\<close> checks in this order: it raises the
  \<open>ValueError\<close> for missing intrinsics whenever the camera matrix or the distortion
  coefficients are not set; else, with the intrinsics set, it returns the failure for
  insufficient corners whenever the corners are missing or fewer than 4. In both cases
  the outcome does not depend on the pose solver: it is not run. With both
  preconditions met and the object points found, a solver that reports no success
  gives the failure \<open>solvePnP failed\<close>, and one that reports success gives the pose.
\<close>

theorem capture_pose_preconditions:
  "(x_camera_matrix s = None \<or> x_dist_coeffs s = None \<longrightarrow>
      fst (capture_pose solvePnP cs cids b s) =
        Inl (ValueError ''Camera intrinsics not set. Load calibration first.''))
   \<and> (x_camera_matrix s \<noteq> None \<and> x_dist_coeffs s \<noteq> None
        \<and> (cs = None \<or> length (the cs) < 4) \<longrightarrow>
        fst (capture_pose solvePnP cs cids b s) =
          Inr (False, ''Need at least 4 ChArUco corners for pose estimation'', None, None))
   \<and> (x_camera_matrix s = None \<or> x_dist_coeffs s = None \<or> cs = None \<or> length (the cs) < 4 \<longrightarrow>
        capture_pose solvePnP cs cids b s = capture_pose solvePnP' cs cids b s)
   \<and> (x_camera_matrix s = Some cm \<and> x_dist_coeffs s = Some dc \<and> cs = Some pts
        \<and> 4 \<le> length pts \<and> cids = Some idl \<and> obj_pts_of b idl = Inr obj_pts \<longrightarrow>
        (\<forall>rv tv. solvePnP obj_pts pts cm dc = Inr (False, rv, tv) \<longrightarrow>
           fst (capture_pose solvePnP cs cids b s) = Inr (False, ''solvePnP failed'', None, None))
        \<and> (\<forall>rv tv. solvePnP obj_pts pts cm dc = Inr (True, rv, tv) \<longrightarrow>
           fst (capture_pose solvePnP cs cids b s) =
             Inr (True, ''Extrinsics captured successfully'', Some rv, Some tv)))"
proof (intro conjI impI allI)
  assume "x_camera_matrix s = None \<or> x_dist_coeffs s = None"
  then show "fst (capture_pose solvePnP cs cids b s) =
        Inl (ValueError ''Camera intrinsics not set. Load calibration first.'')"
    by (simp add: capture_pose_no_intrinsics)
next
  assume "x_camera_matrix s \<noteq> None \<and> x_dist_coeffs s \<noteq> None
        \<and> (cs = None \<or> length (the cs) < 4)"
  then show "fst (capture_pose solvePnP cs cids b s) =
          Inr (False, ''Need at least 4 ChArUco corners for pose estimation'', None, None)"
    by (simp add: capture_pose_few_corners)
next
  assume h: "x_camera_matrix s = None \<or> x_dist_coeffs s = None \<or> cs = None
             \<or> length (the cs) < 4"
  show "capture_pose solvePnP cs cids b s = capture_pose solvePnP' cs cids b s"
  proof (cases "x_camera_matrix s = None \<or> x_dist_coeffs s = None")
    case True
    then show ?thesis by (simp add: capture_pose_no_intrinsics)
  next
    case False
    with h have "cs = None \<or> length (the cs) < 4" by blast
    with False show ?thesis by (simp add: capture_pose_few_corners)
  qed
next
  fix rv tv
  assume h: "x_camera_matrix s = Some cm \<and> x_dist_coeffs s = Some dc \<and> cs = Some pts
        \<and> 4 \<le> length pts \<and> cids = Some idl \<and> obj_pts_of b idl = Inr obj_pts"
    and f: "solvePnP obj_pts pts cm dc = Inr (False, rv, tv)"
  from h have "capture_pose solvePnP (Some pts) (Some idl) b s =
           (case solvePnP obj_pts pts cm dc of
              Inl e \<Rightarrow> (Inr (False, ''Pose estimation error: '' @ str e, None, None), s)
            | Inr (success, rvec, tvec) \<Rightarrow>
                if success
                then (Inr (True, ''Extrinsics captured successfully'', Some rvec, Some tvec),
                      s\<lparr>x_rvec := Some rvec, x_tvec := Some tvec\<rparr>)
                else (Inr (False, ''solvePnP failed'', None, None), s))"
    by (intro capture_pose_solve) simp_all
  with h f show "fst (capture_pose solvePnP cs cids b s) =
                   Inr (False, ''solvePnP failed'', None, None)"
    by simp
next
  fix rv tv
  assume h: "x_camera_matrix s = Some cm \<and> x_dist_coeffs s = Some dc \<and> cs = Some pts
        \<and> 4 \<le> length pts \<and> cids = Some idl \<and> obj_pts_of b idl = Inr obj_pts"
    and f: "solvePnP obj_pts pts cm dc = Inr (True, rv, tv)"
  from h have "capture_pose solvePnP (Some pts) (Some idl) b s =
           (case solvePnP obj_pts pts cm dc of
              Inl e \<Rightarrow> (Inr (False, ''Pose estimation error: '' @ str e, None, None), s)
            | Inr (success, rvec, tvec) \<Rightarrow>
                if success
                then (Inr (True, ''Extrinsics captured successfully'', Some rvec, Some tvec),
                      s\<lparr>x_rvec := Some rvec, x_tvec := Some tvec\<rparr>)
                else (Inr (False, ''solvePnP failed'', None, None), s))"
    by (intro capture_pose_solve) simp_all
  with h f show "fst (capture_pose solvePnP cs cids b s) =
             Inr (True, ''Extrinsics captured successfully'', Some rv, Some tv)"
    by simp
qed

theorem capture_pose_preconditions_witness:
  "fst (capture_pose (\<lambda>ops ips cm dc. Inr (False, column 0 0 0, column 0 0 0))
          (Some corners4) (Some [0, 1, 2, 3]) board0 ExtrinsicCalibration_init) =
     Inl (ValueError ''Camera intrinsics not set. Load calibration first.'')
   \<and> fst (capture_pose (\<lambda>ops ips cm dc. Inr (False, column 0 0 0, column 0 0 0))
          (Some [(10, 10)]) (Some [0]) board0 extrinsic0) =
       Inr (False, ''Need at least 4 ChArUco corners for pose estimation'', None, None)
   \<and> capture_pose (\<lambda>ops ips cm dc. Inr (False, column 0 0 0, column 0 0 0))
          (Some [(10, 10)]) (Some [0]) board0 extrinsic0 =
       capture_pose (\<lambda>ops ips cm dc. Inr (True, column 1 1 1, column 2 2 2))
          (Some [(10, 10)]) (Some [0]) board0 extrinsic0
   \<and> fst (capture_pose (\<lambda>ops ips cm dc. Inr (False, column 0 0 0, column 0 0 0))
          (Some corners4) (Some [0, 1, 2, 3]) board0 extrinsic0) =
       Inr (False, ''solvePnP failed'', None, None)
   \<and> fst (capture_pose (\<lambda>ops ips cm dc. Inr (True, column 1 1 1, column 2 2 2))
          (Some corners4) (Some [0, 1, 2, 3]) board0 extrinsic0) =
       Inr (True, ''Extrinsics captured successfully'',
            Some (column 1 1 1), Some (column 2 2 2))"
proof -
  let ?f = "\<lambda>ops ips cm dc. Inr (False, column 0 0 0, column 0 0 0)
              :: exn + (bool \<times> ndarray \<times> ndarray)"
  let ?h = "\<lambda>ops ips cm dc. Inr (True, column 1 1 1, column 2 2 2)
              :: exn + (bool \<times> ndarray \<times> ndarray)"
  have a: "x_camera_matrix ExtrinsicCalibration_init = None
           \<or> x_dist_coeffs ExtrinsicCalibration_init = None"
    by (simp add: ExtrinsicCalibration_init_def)
  have b: "x_camera_matrix extrinsic0 \<noteq> None \<and> x_dist_coeffs extrinsic0 \<noteq> None
           \<and> (Some [(10, 10)] = (None :: corners option)
                \<or> length (the (Some [(10 :: real, 10 :: real)])) < 4)"
    by (simp add: extrinsic0_def)
  have b': "x_camera_matrix extrinsic0 = None \<or> x_dist_coeffs extrinsic0 = None
            \<or> Some [(10, 10)] = (None :: corners option)
            \<or> length (the (Some [(10 :: real, 10 :: real)])) < 4"
    by simp
  have c: "x_camera_matrix extrinsic0 = Some cm0 \<and> x_dist_coeffs extrinsic0 = Some dc0
           \<and> Some corners4 = Some corners4 \<and> 4 \<le> length corners4
           \<and> Some [0, 1, 2, 3] = Some [0, 1, 2, 3 :: int]
           \<and> obj_pts_of board0 [0, 1, 2, 3] = Inr board0"
    by (simp add: extrinsic0_def corners4_def board0_def obj_point_at_def)
  have d: "?f board0 corners4 cm0 dc0 = Inr (False, column 0 0 0, column 0 0 0)"
    by simp
  have e: "?h board0 corners4 cm0 dc0 = Inr (True, column 1 1 1, column 2 2 2)"
    by simp
  note t1 = capture_pose_preconditions [of ExtrinsicCalibration_init ?f "Some corners4"
      "Some [0, 1, 2, 3]" board0 ?f]
  note t2 = capture_pose_preconditions [of extrinsic0 ?f "Some [(10, 10)]"
      "Some [0]" board0 ?h]
  note t3 = capture_pose_preconditions [of extrinsic0 ?f "Some corners4"
      "Some [0, 1, 2, 3]" board0 ?f cm0 dc0 corners4 "[0, 1, 2, 3]" board0]
  note t4 = capture_pose_preconditions [of extrinsic0 ?h "Some corners4"
      "Some [0, 1, 2, 3]" board0 ?h cm0 dc0 corners4 "[0, 1, 2, 3]" board0]
  have "fst (capture_pose ?f (Some corners4) (Some [0, 1, 2, 3]) board0
               ExtrinsicCalibration_init) =
     Inl (ValueError ''Camera intrinsics not set. Load calibration first.'')"
    by (rule t1 [THEN conjunct1, THEN mp, OF a])
  moreover
  have "fst (capture_pose ?f (Some [(10, 10)]) (Some [0]) board0 extrinsic0) =
       Inr (False, ''Need at least 4 ChArUco corners for pose estimation'', None, None)"
    by (rule t2 [THEN conjunct2, THEN conjunct1, THEN mp, OF b])
  moreover
  have "capture_pose ?f (Some [(10, 10)]) (Some [0]) board0 extrinsic0 =
        capture_pose ?h (Some [(10, 10)]) (Some [0]) board0 extrinsic0"
    by (rule t2 [THEN conjunct2, THEN conjunct2, THEN conjunct1, THEN mp, OF b'])
  moreover
  have "fst (capture_pose ?f (Some corners4) (Some [0, 1, 2, 3]) board0 extrinsic0) =
       Inr (False, ''solvePnP failed'', None, None)"
    by (rule t3 [THEN conjunct2, THEN conjunct2, THEN conjunct2, THEN mp, OF c,
          THEN conjunct1, THEN spec, THEN spec, THEN mp, OF d])
  moreover
  have "fst (capture_pose ?h (Some corners4) (Some [0, 1, 2, 3]) board0 extrinsic0) =
       Inr (True, ''Extrinsics captured successfully'',
            Some (column 1 1 1), Some (column 2 2 2))"
    by (rule t4 [THEN conjunct2, THEN conjunct2, THEN conjunct2, THEN mp, OF c,
          THEN conjunct2, THEN spec, THEN spec, THEN mp, OF e])
  ultimately show ?thesis by (intro conjI)
qed

text \<open>
  Against claim C8 as stated ("fails with InsufficientCorners whenever fewer than 4
  correspondences are supplied"): one corner and no camera model. The first check
  raises the \<open>ValueError\<close> for missing intrinsics, and the failure for insufficient
  corners is not what comes back.
\<close>

theorem capture_pose_intrinsics_first:
  "length [(10, 10) :: pixel] < 4
   \<and> fst (capture_pose no_success_solver (Some [(10, 10)]) (Some [0]) board0
            ExtrinsicCalibration_init) =
       Inl (ValueError ''Camera intrinsics not set. Load calibration first.'')
   \<and> fst (capture_pose no_success_solver (Some [(10, 10)]) (Some [0]) board0
            ExtrinsicCalibration_init) \<noteq>
       Inr (False, ''Need at least 4 ChArUco corners for pose estimation'', None, None)"
  by (simp add: capture_pose_def ExtrinsicCalibration_init_def)

text \<open>
  Claim C10. Whenever \<open>capture_pose\<close> fails (the raised \<open>ValueError\<close>, insufficient
  corners, a solver without success, an exception during estimation), the object is
  left as it was, so \<open>rvec\<close> and \<open>tvec\<close> keep their values; the object changes only on
  the success path, where exactly \<open>rvec\<close> and \<open>tvec\<close> are assigned the solver's result.
\<close>

theorem capture_pose_failure_keeps_pose:
  "((case fst (capture_pose solvePnP cs cids b s) of
       Inl e \<Rightarrow> True
     | Inr (success, message, rv, tv) \<Rightarrow> \<not> success) \<longrightarrow>
      snd (capture_pose solvePnP cs cids b s) = s)
   \<and> (snd (capture_pose solvePnP cs cids b s) \<noteq> s \<longrightarrow>
        (\<exists>rv tv. fst (capture_pose solvePnP cs cids b s) =
                   Inr (True, ''Extrinsics captured successfully'', Some rv, Some tv)
                 \<and> snd (capture_pose solvePnP cs cids b s) =
                     s\<lparr>x_rvec := Some rv, x_tvec := Some tv\<rparr>))"
  using capture_pose_outcomes [of solvePnP cs cids b s]
  by (elim disjE exE conjE) simp_all

theorem capture_pose_failure_keeps_pose_witness:
  "snd (capture_pose (\<lambda>ops ips cm dc. Inr (False, column 1 1 1, column 2 2 2))
          (Some corners4) (Some [0, 1, 2, 3]) board0 extrinsic0) = extrinsic0
   \<and> snd (capture_pose (\<lambda>ops ips cm dc. Inl (CvError ''solvePnP''))
          (Some corners4) (Some [0, 1, 2, 3]) board0 extrinsic0) = extrinsic0
   \<and> x_rvec extrinsic0 = Some (column 0 0 0) \<and> x_tvec extrinsic0 = Some (column 0 0 1)
   \<and> (\<exists>rv tv.
        fst (capture_pose (\<lambda>ops ips cm dc. Inr (True, column 1 1 1, column 2 2 2))
               (Some corners4) (Some [0, 1, 2, 3]) board0 extrinsic0) =
          Inr (True, ''Extrinsics captured successfully'', Some rv, Some tv)
        \<and> snd (capture_pose (\<lambda>ops ips cm dc. Inr (True, column 1 1 1, column 2 2 2))
               (Some corners4) (Some [0, 1, 2, 3]) board0 extrinsic0) =
            extrinsic0\<lparr>x_rvec := Some rv, x_tvec := Some tv\<rparr>)"
proof -
  let ?f = "\<lambda>ops ips cm dc. Inr (False, column 1 1 1, column 2 2 2)
              :: exn + (bool \<times> ndarray \<times> ndarray)"
  let ?g = "\<lambda>ops ips cm dc. Inl (CvError ''solvePnP'')
              :: exn + (bool \<times> ndarray \<times> ndarray)"
  let ?h = "\<lambda>ops ips cm dc. Inr (True, column 1 1 1, column 2 2 2)
              :: exn + (bool \<times> ndarray \<times> ndarray)"
  have f: "fst (capture_pose ?f (Some corners4) (Some [0, 1, 2, 3]) board0 extrinsic0) =
             Inr (False, ''solvePnP failed'', None, None)"
    by (simp add: capture_pose_def extrinsic0_def corners4_def board0_def obj_point_at_def)
  have g: "fst (capture_pose ?g (Some corners4) (Some [0, 1, 2, 3]) board0 extrinsic0) =
             Inr (False, ''Pose estimation error: solvePnP'', None, None)"
    by (simp add: capture_pose_def extrinsic0_def corners4_def board0_def obj_point_at_def)
  have h: "snd (capture_pose ?h (Some corners4) (Some [0, 1, 2, 3]) board0 extrinsic0) \<noteq>
             extrinsic0"
    by (simp add: capture_pose_def extrinsic0_def corners4_def board0_def obj_point_at_def
        column_def)
  have f': "case fst (capture_pose ?f (Some corners4) (Some [0, 1, 2, 3]) board0 extrinsic0) of
              Inl e \<Rightarrow> True | Inr (success, message, rv, tv) \<Rightarrow> \<not> success"
    by (simp add: f)
  have g': "case fst (capture_pose ?g (Some corners4) (Some [0, 1, 2, 3]) board0 extrinsic0) of
              Inl e \<Rightarrow> True | Inr (success, message, rv, tv) \<Rightarrow> \<not> success"
    by (simp add: g)
  have "snd (capture_pose ?f (Some corners4) (Some [0, 1, 2, 3]) board0 extrinsic0) =
          extrinsic0"
    by (rule capture_pose_failure_keeps_pose [of ?f "Some corners4" "Some [0, 1, 2, 3]" board0
          extrinsic0, THEN conjunct1, THEN mp, OF f'])
  moreover
  have "snd (capture_pose ?g (Some corners4) (Some [0, 1, 2, 3]) board0 extrinsic0) =
          extrinsic0"
    by (rule capture_pose_failure_keeps_pose [of ?g "Some corners4" "Some [0, 1, 2, 3]" board0
          extrinsic0, THEN conjunct1, THEN mp, OF g'])
  moreover have "x_rvec extrinsic0 = Some (column 0 0 0)"
    and "x_tvec extrinsic0 = Some (column 0 0 1)"
    by (simp_all add: extrinsic0_def)
  moreover
  have "\<exists>rv tv.
        fst (capture_pose ?h (Some corners4) (Some [0, 1, 2, 3]) board0 extrinsic0) =
          Inr (True, ''Extrinsics captured successfully'', Some rv, Some tv)
        \<and> snd (capture_pose ?h (Some corners4) (Some [0, 1, 2, 3]) board0 extrinsic0) =
            extrinsic0\<lparr>x_rvec := Some rv, x_tvec := Some tv\<rparr>"
    by (rule capture_pose_failure_keeps_pose [of ?h "Some corners4" "Some [0, 1, 2, 3]" board0
          extrinsic0, THEN conjunct2, THEN mp, OF h])
  ultimately show ?thesis by (intro conjI)
qed

section \<open>Properties of the calibration files\<close>

subsection \<open>Arrays through JSON\<close>

lemma np_array_tolist: "regular a \<Longrightarrow> np_array (tolist a) = Inr a"
proof (induction a)
  case (Scalar x)
  then show ?case by simp
next
  case (Array as)
  have reg: "\<forall>a \<in> set as. regular a" and shp: "list_all (\<lambda>a. shape a = shape (hd as)) as"
    using Array.prems by (simp_all add: list_all_iff)
  have m: "map np_array (map tolist as) = map Inr as"
    using Array.IH reg by (simp add: map_idI)
  have f: "filter isl (map Inr as :: (exn + ndarray) list) = []"
    by (induction as) simp_all
  have p: "map projr (map Inr as :: (exn + ndarray) list) = as"
    by (induction as) simp_all
  show ?case
    using shp by (simp add: m f p Let_def del: map_map)
qed

lemma np_array_numbers: "np_array (JArr (map JNum xs)) = Inr (Array (map Scalar xs))"
proof -
  have m: "map np_array (map JNum xs) = map Inr (map Scalar xs)"
    by (induction xs) simp_all
  have f: "filter isl (map Inr (map Scalar xs) :: (exn + ndarray) list) = []"
    by (induction xs) simp_all
  have p: "map projr (map Inr (map Scalar xs) :: (exn + ndarray) list) = map Scalar xs"
    by (induction xs) simp_all
  have s: "list_all (\<lambda>a. shape a = shape (hd (map Scalar xs))) (map Scalar xs)"
    by (cases xs) (simp_all add: list_all_iff)
  show ?thesis
    using s by (simp add: m f p Let_def del: map_map)
qed

lemma flatten_scalars: "flatten (Array (map Scalar xs)) = xs"
  by (induction xs) simp_all

lemma flatten_column: "flatten (Array (map (\<lambda>x. Array [Scalar x]) xs)) = xs"
  by (induction xs) simp_all

lemma reshape_numbers:
  "length xs = 3 \<Longrightarrow>
     reshape_3_1 (Array (map Scalar xs)) = Inr (Array (map (\<lambda>x. Array [Scalar x]) xs))"
  by (simp add: reshape_3_1_def flatten_scalars Let_def del: flatten.simps)


lemma load_after_save_calibration:
  assumes "regular cm" and "regular dc"
  shows "load_calibration (Some path)
           (snd (save_calibration (calib_data cm dc rms sz) (Some path) fs)) = Inr (cm, dc)"
  using assms
  by (simp add: load_calibration_def save_calibration_def json_dump_to_def json_load_from_def
      calib_data_def np_array_tolist del: np_array.simps)

lemma load_after_save_extrinsics:
  assumes "length (flatten rv) = 3" and "length (flatten tv) = 3"
  shows "save_extrinsics (Some rv) (Some tv) (Some path) x fs =
           (Inr path,
            fs(path \<mapsto> JObj [(''rvec'', JArr (map JNum (flatten rv))),
                           (''tvec'', JArr (map JNum (flatten tv)))]))"
    and "load_extrinsics (Some path)
           (snd (save_extrinsics (Some rv) (Some tv) (Some path) x fs)) =
         Inr (Array (map (\<lambda>x. Array [Scalar x]) (flatten rv)),
              Array (map (\<lambda>x. Array [Scalar x]) (flatten tv)))"
  using assms
  by (simp_all add: load_extrinsics_def save_extrinsics_def json_dump_to_def
      json_load_from_def np_array_numbers reshape_numbers Let_def
      del: np_array.simps flatten.simps)

subsection \<open>Saving and loading\<close>

text \<open>
  Claim C7, as the code has it. \<open>save_calibration\<close> writes the whole record, and
  \<open>load_calibration\<close> on the written file returns exactly the saved \<open>camera_matrix\<close> and
  \<open>dist_coeffs\<close> (for arrays proper); \<open>rms\<close> and \<open>image_size\<close> are in the file but are not
  part of what \<open>load_calibration\<close> returns. For a pose whose \<open>rvec\<close> and \<open>tvec\<close> have three
  entries each, \<open>load_extrinsics\<close> after \<open>save_extrinsics\<close> returns vectors with the same
  entries, and saving the loaded pose again writes the same file: the round trip
  \<open>save(load(save(pose))) = save(pose)\<close>.
\<close>

theorem calibration_round_trip:
  "(regular cm \<and> regular dc \<longrightarrow>
      load_calibration (Some path)
        (snd (save_calibration (calib_data cm dc rms sz) (Some path) fs)) = Inr (cm, dc))
   \<and> (length (flatten rv) = 3 \<and> length (flatten tv) = 3 \<longrightarrow>
        (\<exists>rv' tv'.
           load_extrinsics (Some path)
             (snd (save_extrinsics (Some rv) (Some tv) (Some path) x fs)) = Inr (rv', tv')
           \<and> flatten rv' = flatten rv \<and> flatten tv' = flatten tv
           \<and> save_extrinsics (Some rv') (Some tv') (Some path) x
                (snd (save_extrinsics (Some rv) (Some tv) (Some path) x fs)) =
              (Inr path, snd (save_extrinsics (Some rv) (Some tv) (Some path) x fs))))"
proof (intro conjI impI)
  assume "regular cm \<and> regular dc"
  then show "load_calibration (Some path)
        (snd (save_calibration (calib_data cm dc rms sz) (Some path) fs)) = Inr (cm, dc)"
    by (simp add: load_after_save_calibration)
next
  assume h: "length (flatten rv) = 3 \<and> length (flatten tv) = 3"
  let ?rv' = "Array (map (\<lambda>x. Array [Scalar x]) (flatten rv))"
  let ?tv' = "Array (map (\<lambda>x. Array [Scalar x]) (flatten tv))"
  let ?fs1 = "snd (save_extrinsics (Some rv) (Some tv) (Some path) x fs)"
  have l: "load_extrinsics (Some path) ?fs1 = Inr (?rv', ?tv')"
    using h by (simp add: load_after_save_extrinsics(2))
  have f: "flatten ?rv' = flatten rv" "flatten ?tv' = flatten tv"
    by (rule flatten_column)+
  have s1: "?fs1 = fs(path \<mapsto> JObj [(''rvec'', JArr (map JNum (flatten rv))),
                           (''tvec'', JArr (map JNum (flatten tv)))])"
    using h by (simp add: load_after_save_extrinsics(1))
  have "save_extrinsics (Some ?rv') (Some ?tv') (Some path) x ?fs1 =
          (Inr path,
           ?fs1(path \<mapsto> JObj [(''rvec'', JArr (map JNum (flatten ?rv'))),
                           (''tvec'', JArr (map JNum (flatten ?tv')))]))"
    using h by (intro load_after_save_extrinsics(1)) (simp_all only: f)
  then have s2: "save_extrinsics (Some ?rv') (Some ?tv') (Some path) x ?fs1 = (Inr path, ?fs1)"
    by (simp only: f) (simp add: s1)
  show "\<exists>rv' tv'.
           load_extrinsics (Some path) ?fs1 = Inr (rv', tv')
           \<and> flatten rv' = flatten rv \<and> flatten tv' = flatten tv
           \<and> save_extrinsics (Some rv') (Some tv') (Some path) x ?fs1 = (Inr path, ?fs1)"
    using l f s2 by blast
qed

theorem calibration_round_trip_witness:
  "load_calibration (Some CALIB_FILE)
     (snd (save_calibration (calib_data cm0 dc0 (1 / 2) (Some (640, 480))) (Some CALIB_FILE)
             Map.empty)) = Inr (cm0, dc0)
   \<and> load_extrinsics (Some EXTRINSICS_FILE)
       (snd (save_extrinsics (Some (column 0 0 0)) (Some (column 0 0 1))
               (Some EXTRINSICS_FILE) ExtrinsicCalibration_init Map.empty)) =
       Inr (column 0 0 0, column 0 0 1)
   \<and> save_extrinsics (Some (column 0 0 0)) (Some (column 0 0 1)) (Some EXTRINSICS_FILE)
       ExtrinsicCalibration_init
       (snd (save_extrinsics (Some (column 0 0 0)) (Some (column 0 0 1))
               (Some EXTRINSICS_FILE) ExtrinsicCalibration_init Map.empty)) =
       (Inr EXTRINSICS_FILE,
        snd (save_extrinsics (Some (column 0 0 0)) (Some (column 0 0 1))
               (Some EXTRINSICS_FILE) ExtrinsicCalibration_init Map.empty))"
proof -
  let ?fs1 = "snd (save_extrinsics (Some (column 0 0 0)) (Some (column 0 0 1))
               (Some EXTRINSICS_FILE) ExtrinsicCalibration_init Map.empty)"
  have r: "regular cm0 \<and> regular dc0"
    by (simp add: cm0_def dc0_def)
  have n: "length (flatten (column 0 0 0)) = 3 \<and> length (flatten (column 0 0 1)) = 3"
    by (simp add: column_def)
  note t = calibration_round_trip [of cm0 dc0 CALIB_FILE "1 / 2" "Some (640, 480)" Map.empty
      "column 0 0 0" "column 0 0 1" ExtrinsicCalibration_init]
  note t' = calibration_round_trip [of cm0 dc0 EXTRINSICS_FILE "1 / 2" "Some (640, 480)"
      Map.empty "column 0 0 0" "column 0 0 1" ExtrinsicCalibration_init]
  have l: "load_extrinsics (Some EXTRINSICS_FILE) ?fs1 = Inr (column 0 0 0, column 0 0 1)"
    by (simp add: load_extrinsics_def save_extrinsics_def json_dump_to_def
      json_load_from_def reshape_3_1_def column_def Let_def)
  have "load_calibration (Some CALIB_FILE)
     (snd (save_calibration (calib_data cm0 dc0 (1 / 2) (Some (640, 480))) (Some CALIB_FILE)
             Map.empty)) = Inr (cm0, dc0)"
    by (rule t [THEN conjunct1, THEN mp, OF r])
  moreover
  from t' [THEN conjunct2, THEN mp, OF n] obtain rv' tv'
    where "load_extrinsics (Some EXTRINSICS_FILE) ?fs1 = Inr (rv', tv')"
      and "save_extrinsics (Some rv') (Some tv') (Some EXTRINSICS_FILE)
             ExtrinsicCalibration_init ?fs1 = (Inr EXTRINSICS_FILE, ?fs1)"
    by blast
  with l have "save_extrinsics (Some (column 0 0 0)) (Some (column 0 0 1))
             (Some EXTRINSICS_FILE) ExtrinsicCalibration_init ?fs1 = (Inr EXTRINSICS_FILE, ?fs1)"
    by simp
  ultimately show ?thesis using l by (intro conjI)
qed

text \<open>
  Against claim C7 as stated (loading back reproduces \<open>rms\<close> and \<open>image_size\<close>): two
  records that differ in \<open>rms\<close> and \<open>image_size\<close> load to the same pair of arrays.
\<close>

theorem load_calibration_drops_rms:
  "load_calibration None
     (snd (save_calibration (calib_data cm0 dc0 (1 / 2) (Some (640, 480))) None Map.empty)) =
     Inr (cm0, dc0)
   \<and> load_calibration None
       (snd (save_calibration (calib_data cm0 dc0 (3 / 2) (Some (1280, 960))) None Map.empty)) =
       Inr (cm0, dc0)
   \<and> calib_data cm0 dc0 (1 / 2) (Some (640, 480)) \<noteq> calib_data cm0 dc0 (3 / 2) (Some (1280, 960))"
  by (simp add: load_calibration_def save_calibration_def json_dump_to_def json_load_from_def
      calib_data_def cm0_def dc0_def Let_def)

end
